theory Spec2Isabelle
  imports Complex_Main "HOL-Library.Multiset"
begin

section \<open>The picpocket CLIP worker (src/python/classifier.py)\<close>

text \<open>
  The worker reads one JSON request from stdin, loads a CLIP model, embeds every prompt of
  every category once, scores each image against these embeddings and prints JSON messages
  to stdout. The calls into torch, transformers, PIL and json are the environment of the
  model: each is a function that either returns a value or raises, and an exception is the
  value \<open>Inl msg\<close> where \<open>msg\<close> is \<open>str(e)\<close>, the only part of an exception the worker
  ever reads.

  A tensor entry is a float32 value: a number, an infinity or NaN. The worker does no
  arithmetic of its own on tensors. Where torch rounds and chooses the order in which it
  adds (\<open>norm\<close>, \<open>/\<close>, \<open>@\<close>, \<open>mean\<close>), the operation is a function of the environment;
  where the result is fixed by comparisons alone (indexing, \<open>topk\<close>, Python's \<open>max\<close>) or
  by IEEE 754 without rounding (division by zero), it is defined here. The two zeros of
  float32 are one value \<open>Num 0\<close>.
\<close>

subsection \<open>Tensor entries\<close>

datatype fl = Num real | PInf | NInf | NaN

text \<open>Python's \<open>>\<close> on floats: false whenever a side is NaN.\<close>

fun fl_gt :: "fl \<Rightarrow> fl \<Rightarrow> bool" where
  "fl_gt NaN _ = False"
| "fl_gt _ NaN = False"
| "fl_gt _ PInf = False"
| "fl_gt PInf _ = True"
| "fl_gt NInf _ = False"
| "fl_gt _ NInf = True"
| "fl_gt (Num x) (Num y) = (x > y)"

text \<open>The order of \<open>torch.topk\<close> (largest first): NaN ranks above every other value.
  \<open>fl_ge a b\<close> says that \<open>a\<close> may stand before \<open>b\<close>; on values other than NaN it is
  \<open>\<ge>\<close>.\<close>

fun fl_ge :: "fl \<Rightarrow> fl \<Rightarrow> bool" where
  "fl_ge NaN _ = True"
| "fl_ge _ NaN = False"
| "fl_ge PInf _ = True"
| "fl_ge _ PInf = False"
| "fl_ge _ NInf = True"
| "fl_ge NInf _ = False"
| "fl_ge (Num x) (Num y) = (x \<ge> y)"

text \<open>IEEE 754 division of an entry by zero: no rounding takes place. The divisor is
  a norm, so the zero is the positive one.\<close>

fun divide_by_zero :: "fl \<Rightarrow> fl" where
  "divide_by_zero (Num x) = (if x = 0 then NaN else if 0 < x then PInf else NInf)"
| "divide_by_zero PInf = PInf"
| "divide_by_zero NInf = NInf"
| "divide_by_zero NaN = NaN"

text \<open>\<open>all_similarities[indices]\<close> with a list of indices.\<close>

definition index_select :: "fl list \<Rightarrow> nat list \<Rightarrow> string + fl list" where
  "index_select t indices =
     (if list_all (\<lambda>i. i < length t) indices
      then Inr (map (\<lambda>i. t ! i) indices)
      else Inl ''index is out of bounds'')"

text \<open>\<open>t.topk(k)\<close>: the \<open>k\<close> largest entries, largest first.\<close>

fun insert_desc :: "fl \<Rightarrow> fl list \<Rightarrow> fl list" where
  "insert_desc x [] = [x]"
| "insert_desc x (y # ys) = (if fl_ge x y then x # y # ys else y # insert_desc x ys)"

definition sort_desc :: "fl list \<Rightarrow> fl list" where
  "sort_desc xs = foldr insert_desc xs []"

definition topk :: "fl list \<Rightarrow> int \<Rightarrow> string + fl list" where
  "topk t k =
     (if k < 0 \<or> int (length t) < k then Inl ''selected index k out of range''
      else Inr (take (nat k) (sort_desc t)))"

subsection \<open>Exceptions as values\<close>

definition and_then :: "string + 'a \<Rightarrow> ('a \<Rightarrow> string + 'b) \<Rightarrow> string + 'b" where
  "and_then r f = (case r of Inl e \<Rightarrow> Inl e | Inr x \<Rightarrow> f x)"

subsection \<open>The environment\<close>

text \<open>
  A loaded model with its processor, on the device it was moved to. \<open>get_text_features\<close>
  stands for lines 55 to 65 (the processor call, the move to the device, the forward pass
  and the choice of \<open>pooler_output\<close>, \<open>last_hidden_state[:, 0, :]\<close> or the output
  itself), one row per prompt; \<open>get_image_features\<close> for lines 83 to 93, the single row
  of the image. The tensors of the model live on its device, and so does the float32
  arithmetic that torch does on them:
  \<^item> \<open>tensor_norm\<close>, the entry of \<open>t.norm(dim=-1, keepdim=True)\<close> for one row;
  \<^item> \<open>tensor_true_divide\<close>, the quotient of two entries in \<open>t / n\<close>, the divisor not
    being zero;
  \<^item> \<open>tensor_matmul img t j\<close>, entry \<open>j\<close> of \<open>(img @ t.T).squeeze(0)\<close>;
  \<^item> \<open>tensor_mean\<close>, the value of \<open>t.mean()\<close>.
\<close>

record 'img clip =
  get_text_features :: "string list \<Rightarrow> string + fl list list"
  get_image_features :: "'img \<Rightarrow> string + fl list"
  tensor_norm :: "fl list \<Rightarrow> fl"
  tensor_true_divide :: "fl \<Rightarrow> fl \<Rightarrow> fl"
  tensor_matmul :: "fl list \<Rightarrow> fl list list \<Rightarrow> nat \<Rightarrow> fl"
  tensor_mean :: "fl list \<Rightarrow> fl"

text \<open>\<open>t / t.norm(dim=-1, keepdim=True)\<close> on one row (lines 66 and 94). Nothing is
  checked before the division.\<close>

definition l2_normalize :: "'img clip \<Rightarrow> fl list \<Rightarrow> fl list" where
  "l2_normalize model v =
     (let n = tensor_norm model v
      in map (\<lambda>x. if n = Num 0 then divide_by_zero x else tensor_true_divide model x n) v)"

text \<open>\<open>(image_features @ text_features.T).squeeze(0)\<close> (line 96): one entry per row of
  the index; torch raises when the inner dimensions differ.\<close>

definition similarities :: "'img clip \<Rightarrow> fl list \<Rightarrow> fl list list \<Rightarrow> string + fl list" where
  "similarities model image_features text_features =
     (if list_all (\<lambda>row. length row = length image_features) text_features
      then Inr (map (tensor_matmul model image_features text_features)
                  [0 ..< length text_features])
      else Inl ''mat1 and mat2 shapes cannot be multiplied'')"

text \<open>What lines 203 and 204 can raise: \<open>sys.stdin.read()\<close> a UnicodeDecodeError,
  \<open>json.loads\<close> a JSONDecodeError or, on deeply nested input, a RecursionError; any
  other exception (a MemoryError, say) is \<open>OtherException\<close>. Each carries \<open>str(e)\<close>.\<close>

datatype read_error =
    JSONDecodeError string
  | UnicodeDecodeError string
  | RecursionError string
  | OtherException string

text \<open>The request that line 204 binds, for documents of the protocol's shape: an object
  whose fields, when present, have the protocol's types. An absent field is \<open>None\<close>.
  A Python dict is an association list in insertion order.\<close>

record config =
  cfg_model :: "string option"
  cfg_categories :: "(string \<times> string list) list option"
  cfg_topK :: "int option"

record request =
  req_command :: "string option"
  req_config :: "config option"
  req_images :: "string list option"

text \<open>\<open>json_loads e input_data\<close> is the outcome of lines 203 and 204 when stdin holds
  \<open>input_data\<close>; \<open>from_pretrained\<close> is lines 38 to 41; \<open>image_open\<close> is
  \<open>Image.open(path).convert("RGB")\<close>.\<close>

record 'img env =
  mps_is_available :: bool
  cuda_is_available :: bool
  json_loads :: "string \<Rightarrow> read_error + request"
  from_pretrained :: "string \<Rightarrow> string \<Rightarrow> string + 'img clip"
  image_open :: "string \<Rightarrow> string + 'img"
  torch_version :: string
  transformers_version :: "string option"
  pillow_version :: "string option"

subsection \<open>Messages and the trace of a run\<close>

text \<open>One entry of \<open>results\<close>. The worker fills the last three fields from what
  \<open>classify_image\<close> returned, which can be Python's \<open>None\<close>.\<close>

record result =
  res_path :: string
  res_category :: "string option"
  res_confidence :: "fl option"
  res_scores :: "(string \<times> fl) list option"

text \<open>One entry of \<open>errors\<close>.\<close>

record failure =
  err_path :: string
  err_error :: string

record check_report =
  chk_torch :: bool
  chk_transformers :: bool
  chk_pillow :: bool
  chk_device :: string
  chk_torch_version :: string
  chk_transformers_version :: "string option"
  chk_pillow_version :: "string option"

text \<open>The JSON documents \<open>send_response\<close> prints: \<open>{"type": "status", ...}\<close>,
  \<open>{"type": "progress", ...}\<close>, \<open>{"status": "success", "device", "results", "errors"}\<close>,
  \<open>{"status": "success", "checks"}\<close> and \<open>{"status": "error", "error"}\<close>.\<close>

datatype message =
    Status string
  | Progress nat nat
  | Success string "result list" "failure list"
  | Checks check_report
  | Error string

text \<open>What a run does, in order: lines printed to stdout and calls into the model.\<close>

datatype event =
    Stdout message
  | Load_model string string
  | Embed_text "string list"
  | Classify string

text \<open>How the process ends: \<open>sys.exit(n)\<close> or falling off \<open>main\<close> (code 0), or an
  exception nobody caught (the interpreter prints a traceback to stderr and the exit code
  is 1).\<close>

datatype ending = Exit nat | Uncaught string

subsection \<open>The worker\<close>

definition get_device :: "'img env \<Rightarrow> string" where
  "get_device e =
     (if mps_is_available e then ''mps''
      else if cuda_is_available e then ''cuda''
      else ''cpu'')"

definition send_progress :: "nat \<Rightarrow> nat \<Rightarrow> event" where
  "send_progress current total_images = Stdout (Progress current total_images)"

definition load_model :: "'img env \<Rightarrow> string \<Rightarrow> string \<Rightarrow> string + 'img clip" where
  "load_model e model_name device = from_pretrained e model_name device"

text \<open>Lines 47 to 53: the prompts of all categories in order, and for each the category
  it came from.\<close>

fun flatten_prompts :: "(string \<times> string list) list \<Rightarrow> string list \<times> string list" where
  "flatten_prompts [] = ([], [])"
| "flatten_prompts ((category, prompts) # rest) =
     (let (all_prompts, prompt_to_category) = flatten_prompts rest
      in (prompts @ all_prompts, map (\<lambda>prompt. category) prompts @ prompt_to_category))"

text \<open>Lines 68 to 70: \<open>category_indices[cat].append(idx)\<close> on a
  \<open>defaultdict(list)\<close>. A new key goes to the end of the dict, a known key keeps its
  place.\<close>

fun append_index :: "(string \<times> nat list) list \<Rightarrow> string \<Rightarrow> nat \<Rightarrow> (string \<times> nat list) list" where
  "append_index [] cat idx = [(cat, [idx])]"
| "append_index ((c, idxs) # rest) cat idx =
     (if c = cat then (c, idxs @ [idx]) # rest else (c, idxs) # append_index rest cat idx)"

fun group_indices :: "(string \<times> nat list) list \<Rightarrow> nat \<Rightarrow> string list \<Rightarrow> (string \<times> nat list) list" where
  "group_indices category_indices idx [] = category_indices"
| "group_indices category_indices idx (cat # rest) =
     group_indices (append_index category_indices cat idx) (Suc idx) rest"

definition precompute_text_features ::
  "'img clip \<Rightarrow> (string \<times> string list) list
     \<Rightarrow> string + (fl list list \<times> string list \<times> (string \<times> nat list) list)" where
  "precompute_text_features model categories =
     (let (all_prompts, prompt_to_category) = flatten_prompts categories
      in and_then (get_text_features model all_prompts) (\<lambda>text_features.
           Inr (map (l2_normalize model) text_features, prompt_to_category,
                group_indices [] 0 prompt_to_category)))"

text \<open>Lines 100 to 103, the body of the loop over \<open>category_indices\<close>.\<close>

definition category_score :: "'img clip \<Rightarrow> fl list \<Rightarrow> nat list \<Rightarrow> int \<Rightarrow> string + fl" where
  "category_score model all_similarities indices top_k =
     and_then (index_select all_similarities indices) (\<lambda>cat_similarities.
       let k = min top_k (int (length indices))
       in and_then (topk cat_similarities k) (\<lambda>top_scores.
            Inr (tensor_mean model top_scores)))"

text \<open>Lines 98 to 103. The keys of \<open>category_indices\<close> are distinct, so each
  assignment adds a new key at the end of \<open>category_scores\<close>.\<close>

fun score_categories ::
  "'img clip \<Rightarrow> fl list \<Rightarrow> (string \<times> nat list) list \<Rightarrow> int
     \<Rightarrow> string + (string \<times> fl) list" where
  "score_categories model all_similarities [] top_k = Inr []"
| "score_categories model all_similarities ((category, indices) # rest) top_k =
     and_then (category_score model all_similarities indices top_k) (\<lambda>score.
       and_then (score_categories model all_similarities rest top_k) (\<lambda>category_scores.
         Inr ((category, score) # category_scores)))"

text \<open>Line 105, \<open>max(category_scores, key=category_scores.get)\<close>: Python's \<open>max\<close>
  keeps the first item and replaces it only by an item whose key is greater; it raises
  ValueError on an empty dict. Line 106 reads the score of the winner.\<close>

fun max_from :: "string \<times> fl \<Rightarrow> (string \<times> fl) list \<Rightarrow> string \<times> fl" where
  "max_from best [] = best"
| "max_from best (item # rest) =
     max_from (if fl_gt (snd item) (snd best) then item else best) rest"

definition max_score :: "(string \<times> fl) list \<Rightarrow> string + (string \<times> fl)" where
  "max_score category_scores =
     (case category_scores of
        [] \<Rightarrow> Inl ''max() arg is an empty sequence''
      | item # rest \<Rightarrow> Inr (max_from item rest))"

text \<open>\<open>classify_image\<close> returns the tuple (category, confidence, scores, error).\<close>

type_synonym classified =
  "string option \<times> fl option \<times> (string \<times> fl) list option \<times> string option"

definition score_image ::
  "'img clip \<Rightarrow> 'img \<Rightarrow> fl list list \<Rightarrow> (string \<times> nat list) list \<Rightarrow> int
     \<Rightarrow> string + (string \<times> fl \<times> (string \<times> fl) list)" where
  "score_image model img text_features category_indices top_k =
     and_then (get_image_features model img) (\<lambda>features.
       let image_features = l2_normalize model features
       in and_then (similarities model image_features text_features) (\<lambda>all_similarities.
            and_then (score_categories model all_similarities category_indices top_k)
              (\<lambda>category_scores.
              and_then (max_score category_scores) (\<lambda>(best_category, confidence).
                Inr (best_category, confidence, category_scores)))))"

definition classify_image ::
  "'img env \<Rightarrow> string \<Rightarrow> 'img clip \<Rightarrow> fl list list \<Rightarrow> (string \<times> nat list) list \<Rightarrow> int
     \<Rightarrow> classified" where
  "classify_image e image_path model text_features category_indices top_k =
     (case image_open e image_path of
        Inl msg \<Rightarrow> (None, None, None, Some msg)
      | Inr img \<Rightarrow>
          (case score_image model img text_features category_indices top_k of
             Inl msg \<Rightarrow> (None, None, None, Some msg)
           | Inr (best_category, confidence, category_scores) \<Rightarrow>
               (Some best_category, Some confidence, Some category_scores, None)))"

text \<open>Python's truth value of \<open>error\<close> in \<open>if error:\<close> (line 152): \<open>None\<close> and the
  empty string are false.\<close>

fun truthy :: "string option \<Rightarrow> bool" where
  "truthy None = False"
| "truthy (Some s) = (s \<noteq> [])"

text \<open>Lines 145 to 160: the loop over \<open>enumerate(images)\<close>, with the trace, \<open>results\<close>
  and \<open>errors\<close> as its state.\<close>

fun classify_loop ::
  "'img env \<Rightarrow> 'img clip \<Rightarrow> fl list list \<Rightarrow> (string \<times> nat list) list \<Rightarrow> int \<Rightarrow> nat
     \<Rightarrow> nat \<Rightarrow> string list \<Rightarrow> event list \<times> result list \<times> failure list
     \<Rightarrow> event list \<times> result list \<times> failure list" where
  "classify_loop e model text_features category_indices top_k total_images idx [] state = state"
| "classify_loop e model text_features category_indices top_k total_images idx (image_path # rest)
       (trace, results, errors) =
     (let trace' = trace @ [send_progress (idx + 1) total_images, Classify image_path];
          (category, confidence, scores, error) =
             classify_image e image_path model text_features category_indices top_k
      in if truthy error
         then classify_loop e model text_features category_indices top_k total_images (Suc idx) rest
                (trace', results,
                 errors @ [\<lparr>err_path = image_path, err_error = the error\<rparr>])
         else classify_loop e model text_features category_indices top_k total_images (Suc idx) rest
                (trace',
                 results @ [\<lparr>res_path = image_path, res_category = category,
                             res_confidence = confidence, res_scores = scores\<rparr>],
                 errors))"

text \<open>Lines 115 to 120: the fields of the request with their defaults.\<close>

definition request_config :: "request \<Rightarrow> config" where
  "request_config request =
     (case req_config request of
        None \<Rightarrow> \<lparr>cfg_model = None, cfg_categories = None, cfg_topK = None\<rparr>
      | Some config \<Rightarrow> config)"

definition request_images :: "request \<Rightarrow> string list" where
  "request_images request = (case req_images request of None \<Rightarrow> [] | Some images \<Rightarrow> images)"

definition request_model_name :: "request \<Rightarrow> string" where
  "request_model_name request =
     (case cfg_model (request_config request) of
        None \<Rightarrow> ''openai/clip-vit-large-patch14''
      | Some model_name \<Rightarrow> model_name)"

definition request_categories :: "request \<Rightarrow> (string \<times> string list) list" where
  "request_categories request =
     (case cfg_categories (request_config request) of
        None \<Rightarrow> []
      | Some categories \<Rightarrow> categories)"

definition request_top_k :: "request \<Rightarrow> int" where
  "request_top_k request =
     (case cfg_topK (request_config request) of None \<Rightarrow> 3 | Some top_k \<Rightarrow> top_k)"

text \<open>\<open>handle_classify\<close> returns its trace and, when an exception leaves it, that
  exception.\<close>

definition handle_classify :: "'img env \<Rightarrow> request \<Rightarrow> event list \<times> string option" where
  "handle_classify e request =
     (let images = request_images request;
          model_name = request_model_name request;
          categories = request_categories request;
          top_k = request_top_k request;
          device = get_device e;
          trace1 = [Stdout (Status (''Loading model on '' @ device @ ''...'')),
                    Load_model model_name device]
      in case load_model e model_name device of
           Inl msg \<Rightarrow>
             (trace1 @ [Stdout (Error (''Failed to load model: '' @ msg))], None)
         | Inr model \<Rightarrow>
             (let trace2 = trace1 @ [Stdout (Status ''Precomputing text features...''),
                                     Embed_text (fst (flatten_prompts categories))]
              in case precompute_text_features model categories of
                   Inl msg \<Rightarrow> (trace2, Some msg)
                 | Inr (text_features, prompt_to_category, category_indices) \<Rightarrow>
                     (let total_images = length images;
                          (trace3, results, errors) =
                             classify_loop e model text_features category_indices top_k
                               total_images 0 images (trace2, [], [])
                      in (trace3 @ [Stdout (Success device results errors)], None))))"

definition handle_check :: "'img env \<Rightarrow> event list" where
  "handle_check e =
     [Stdout (Checks
        \<lparr>chk_torch = True,
         chk_transformers = (transformers_version e \<noteq> None),
         chk_pillow = (pillow_version e \<noteq> None),
         chk_device = get_device e,
         chk_torch_version = torch_version e,
         chk_transformers_version = transformers_version e,
         chk_pillow_version = pillow_version e\<rparr>)]"

text \<open>Lines 200 to 223. The \<open>except\<close> clause of line 205 names
  \<open>json.JSONDecodeError\<close> only: any other exception of lines 203 and 204 leaves
  \<open>main\<close>.\<close>

definition main :: "'img env \<Rightarrow> string \<Rightarrow> event list \<times> ending" where
  "main e input_data =
     (case json_loads e input_data of
        Inl (JSONDecodeError msg) \<Rightarrow>
          ([Stdout (Error (''Invalid JSON input: '' @ msg))], Exit 1)
      | Inl (UnicodeDecodeError msg) \<Rightarrow> ([], Uncaught msg)
      | Inl (RecursionError msg) \<Rightarrow> ([], Uncaught msg)
      | Inl (OtherException msg) \<Rightarrow> ([], Uncaught msg)
      | Inr request \<Rightarrow>
          (let command = (case req_command request of None \<Rightarrow> ''classify'' | Some c \<Rightarrow> c)
           in if command = ''classify''
              then (case handle_classify e request of
                      (trace, None) \<Rightarrow> (trace, Exit 0)
                    | (trace, Some msg) \<Rightarrow> (trace, Uncaught msg))
              else if command = ''check'' then (handle_check e, Exit 0)
              else ([Stdout (Error (''Unknown command: '' @ command))], Exit 1)))"

subsection \<open>The rows of a category, in the words of the specification\<close>

text \<open>The row indices of the index that belong to a category: the positions of
  \<open>prompt_to_category\<close> that hold its name.\<close>

definition own_rows :: "string list \<Rightarrow> string \<Rightarrow> nat list" where
  "own_rows prompt_to_category category =
     filter (\<lambda>idx. prompt_to_category ! idx = category) [0 ..< length prompt_to_category]"

subsection \<open>A small environment to run the worker in\<close>

text \<open>
  Arithmetic without rounding, with the IEEE 754 rules for infinities and NaN. The small
  environment below uses it on vectors with entries 0, 1 and 2 only, where float32
  arithmetic is exact (every sum, product, root and quotient met there is one of
  0, 1/2, 1, 2, 4 or NaN). It is no model of torch on other arguments.
\<close>

fun exact_add :: "fl \<Rightarrow> fl \<Rightarrow> fl" where
  "exact_add NaN _ = NaN"
| "exact_add _ NaN = NaN"
| "exact_add PInf NInf = NaN"
| "exact_add NInf PInf = NaN"
| "exact_add PInf _ = PInf"
| "exact_add _ PInf = PInf"
| "exact_add NInf _ = NInf"
| "exact_add _ NInf = NInf"
| "exact_add (Num x) (Num y) = Num (x + y)"

fun exact_neg :: "fl \<Rightarrow> fl" where
  "exact_neg (Num x) = Num (- x)"
| "exact_neg PInf = NInf"
| "exact_neg NInf = PInf"
| "exact_neg NaN = NaN"

fun exact_mul :: "fl \<Rightarrow> fl \<Rightarrow> fl" where
  "exact_mul NaN _ = NaN"
| "exact_mul _ NaN = NaN"
| "exact_mul (Num x) (Num y) = Num (x * y)"
| "exact_mul (Num x) y = (if x = 0 then NaN else if 0 < x then y else exact_neg y)"
| "exact_mul x (Num y) = (if y = 0 then NaN else if 0 < y then x else exact_neg x)"
| "exact_mul PInf y = y"
| "exact_mul NInf y = exact_neg y"

text \<open>The quotient by a divisor other than zero.\<close>

fun exact_divide :: "fl \<Rightarrow> fl \<Rightarrow> fl" where
  "exact_divide NaN _ = NaN"
| "exact_divide _ NaN = NaN"
| "exact_divide (Num x) (Num d) = Num (x / d)"
| "exact_divide (Num x) d = Num 0"
| "exact_divide x (Num d) = (if 0 < d then x else exact_neg x)"
| "exact_divide x d = NaN"

fun exact_sqrt :: "fl \<Rightarrow> fl" where
  "exact_sqrt (Num x) = (if x < 0 then NaN else Num (sqrt x))"
| "exact_sqrt PInf = PInf"
| "exact_sqrt NInf = NaN"
| "exact_sqrt NaN = NaN"

definition exact_sum :: "fl list \<Rightarrow> fl" where
  "exact_sum t = foldr exact_add t (Num 0)"

text \<open>
  A model with two-dimensional embeddings, an image being a number. The prompt
  \<open>nothing\<close> and the image \<open>black.png\<close> embed to the zero vector; \<open>huge.png\<close> cannot be
  decoded and its exception has an empty message, as \<open>str(MemoryError())\<close> is empty;
  every unknown file is missing. The text encoder refuses an empty batch. Only the model
  \<open>openai/clip-vit-large-patch14\<close> can be loaded. Reading and parsing raise
  JSONDecodeError on the input \<open>{\<close>, RecursionError on a thousand or more opening
  brackets and nothing else, and return the request given to \<open>demo_env\<close> on every other
  input.
\<close>

definition demo_text_vector :: "string \<Rightarrow> fl list" where
  "demo_text_vector prompt =
     (if prompt = ''a photo of a cat'' then [Num 1, Num 0]
      else if prompt = ''a kitten'' then [Num 0, Num 2]
      else if prompt = ''a photo of a dog'' then [Num 0, Num 1]
      else [Num 0, Num 0])"

definition demo_model :: "nat clip" where
  "demo_model =
     \<lparr>get_text_features =
        (\<lambda>prompts. if prompts = [] then Inl ''empty batch''
                   else Inr (map demo_text_vector prompts)),
      get_image_features =
        (\<lambda>img. Inr (if img = 0 then [Num 1, Num 0]
                     else if img = 1 then [Num 0, Num 1]
                     else [Num 0, Num 0])),
      tensor_norm = (\<lambda>v. exact_sqrt (exact_sum (map (\<lambda>x. exact_mul x x) v))),
      tensor_true_divide = exact_divide,
      tensor_matmul = (\<lambda>img t j. exact_sum (map2 exact_mul img (t ! j))),
      tensor_mean =
        (\<lambda>t. if t = [] then NaN else exact_divide (exact_sum t) (Num (real (length t))))\<rparr>"

definition demo_env :: "request \<Rightarrow> nat env" where
  "demo_env request =
     \<lparr>mps_is_available = False,
      cuda_is_available = False,
      json_loads =
        (\<lambda>input_data.
           if input_data = ''{''
           then Inl (JSONDecodeError ''Expecting property name enclosed in double quotes'')
           else if list_all (\<lambda>c. c = CHR ''['') input_data \<and> 1000 \<le> length input_data
           then Inl (RecursionError ''maximum recursion depth exceeded'')
           else Inr request),
      from_pretrained =
        (\<lambda>model_name device.
           if model_name = ''openai/clip-vit-large-patch14'' then Inr demo_model
           else Inl ''not a valid model identifier''),
      image_open =
        (\<lambda>image_path.
           if image_path = ''cat.jpg'' then Inr 0
           else if image_path = ''dog.jpg'' then Inr 1
           else if image_path = ''black.png'' then Inr 2
           else if image_path = ''huge.png'' then Inl []
           else Inl ''No such file or directory''),
      torch_version = ''2.2.0'',
      transformers_version = Some ''4.40.0'',
      pillow_version = Some ''10.3.0''\<rparr>"

definition demo_categories :: "(string \<times> string list) list" where
  "demo_categories =
     [(''cat'', [''a photo of a cat'', ''a kitten'']), (''dog'', [''a photo of a dog''])]"

definition demo_request :: "string list \<Rightarrow> request" where
  "demo_request images =
     \<lparr>req_command = None,
      req_config = Some \<lparr>cfg_model = None, cfg_categories = Some demo_categories,
                         cfg_topK = None\<rparr>,
      req_images = Some images\<rparr>"

section \<open>Lemmas about the worker\<close>

subsection \<open>Sequencing calls that can raise\<close>

lemma and_then_Inr:
  "and_then r f = Inr y \<longleftrightarrow> (\<exists>x. r = Inr x \<and> f x = Inr y)"
  by (cases r) (simp_all add: and_then_def)

subsection \<open>The parts of the environment a function reads\<close>

lemma classify_image_json_loads:
  "classify_image (e\<lparr>json_loads := f\<rparr>) p m tf ci k = classify_image e p m tf ci k"
  by (simp add: classify_image_def)

lemma classify_loop_json_loads:
  "classify_loop (e\<lparr>json_loads := f\<rparr>) m tf ci k n idx ps st =
   classify_loop e m tf ci k n idx ps st"
proof (induction ps arbitrary: idx st)
  case Nil
  show ?case by simp
next
  case (Cons p ps)
  obtain tr rs es where st: "st = (tr, rs, es)" by (cases st)
  show ?case
    unfolding st by (simp add: classify_image_json_loads Cons.IH Let_def split: prod.splits)
qed

lemma get_device_json_loads: "get_device (e\<lparr>json_loads := f\<rparr>) = get_device e"
  by (simp add: get_device_def)

lemma handle_classify_json_loads:
  "handle_classify (e\<lparr>json_loads := f\<rparr>) r = handle_classify e r"
  by (simp add: handle_classify_def classify_loop_json_loads get_device_json_loads
      load_model_def Let_def cong: sum.case_cong)

lemma handle_classify_command:
  "handle_classify e (r\<lparr>req_command := c\<rparr>) = handle_classify e r"
  by (simp add: handle_classify_def request_images_def request_model_name_def
      request_categories_def request_top_k_def request_config_def)

subsection \<open>Index construction\<close>

lemma fst_flatten_prompts: "fst (flatten_prompts cats) = concat (map snd cats)"
  by (induction cats) (auto simp: split_beta)

lemma snd_flatten_prompts:
  "snd (flatten_prompts cats) = concat (map (\<lambda>(c, ps). replicate (length ps) c) cats)"
  by (induction cats) (auto simp: split_beta map_replicate_const)

lemma set_snd_flatten_prompts:
  "set (snd (flatten_prompts cats)) = {c. \<exists>ps. (c, ps) \<in> set cats \<and> ps \<noteq> []}"
  by (force simp: snd_flatten_prompts)

lemma flatten_prompts_filter:
  "flatten_prompts (filter (\<lambda>(category, prompts). prompts \<noteq> []) cats) = flatten_prompts cats"
  by (induction cats) (auto simp: split_beta)

lemma precompute_text_features_filter:
  "precompute_text_features model (filter (\<lambda>(category, prompts). prompts \<noteq> []) cats) =
   precompute_text_features model cats"
  by (simp add: precompute_text_features_def flatten_prompts_filter)

lemma precompute_text_features_Inr:
  "precompute_text_features m cats = Inr (tf, p2c, ci) \<longleftrightarrow>
     (\<exists>features. get_text_features m (fst (flatten_prompts cats)) = Inr features
        \<and> tf = map (l2_normalize m) features
        \<and> p2c = snd (flatten_prompts cats)
        \<and> ci = group_indices [] 0 (snd (flatten_prompts cats)))"
  by (auto simp: precompute_text_features_def and_then_Inr split_beta)

text \<open>The keys of \<open>category_indices\<close> are the categories that have a prompt, in the
  order of the request, and each key holds the rows of its own prompts.\<close>

lemma upt_plus_Suc: "[idx ..< Suc (idx + n)] = idx # [Suc idx ..< Suc (idx + n)]"
  by (simp add: upt_conv_Cons)

lemma keys_append_index: "fst ` set (append_index ci cat idx) = insert cat (fst ` set ci)"
  by (induction ci cat idx rule: append_index.induct) auto

lemma keys_group_indices: "fst ` set (group_indices ci idx cats) = fst ` set ci \<union> set cats"
  by (induction ci idx cats rule: group_indices.induct) (auto simp: keys_append_index)

lemma map_of_append_index:
  "map_of (append_index ci cat idx) c =
     (if c = cat then Some ((case map_of ci cat of None \<Rightarrow> [] | Some idxs \<Rightarrow> idxs) @ [idx])
      else map_of ci c)"
  by (induction ci cat idx rule: append_index.induct) auto

lemma map_of_group_indices:
  "map_of (group_indices ci idx cats) c =
     (case map_of ci c of
        None \<Rightarrow> if c \<in> set cats
                then Some (map fst (filter (\<lambda>(j, cat). cat = c) (zip [idx ..< idx + length cats] cats)))
                else None
      | Some idxs \<Rightarrow>
          Some (idxs @ map fst (filter (\<lambda>(j, cat). cat = c) (zip [idx ..< idx + length cats] cats))))"
proof (induction cats arbitrary: ci idx)
  case Nil
  show ?case by (simp split: option.splits)
next
  case (Cons cat cats)
  show ?case
    by (simp add: Cons.IH map_of_append_index upt_plus_Suc del: upt_Suc split: option.splits)
qed

lemma enumerate_filter:
  "map fst (filter (\<lambda>(j, x). P x) (zip [0 ..< length xs] xs)) =
   filter (\<lambda>j. P (xs ! j)) [0 ..< length xs]"
proof -
  have "zip [0 ..< length xs] xs = map (\<lambda>j. (j, xs ! j)) [0 ..< length xs]"
    by (rule nth_equalityI) simp_all
  then show ?thesis
    by (simp add: filter_map comp_def)
qed

lemma category_indices_own_rows:
  "map_of (group_indices [] 0 p2c) c = (if c \<in> set p2c then Some (own_rows p2c c) else None)"
  using enumerate_filter [of "\<lambda>x. x = c" p2c]
  by (simp add: map_of_group_indices own_rows_def)

lemma map_fst_append_index:
  "map fst (append_index ci cat idx) =
     (if cat \<in> fst ` set ci then map fst ci else map fst ci @ [cat])"
  by (induction ci cat idx rule: append_index.induct) (auto simp: image_iff)

lemma group_indices_append:
  "group_indices ci idx (xs @ ys) = group_indices (group_indices ci idx xs) (idx + length xs) ys"
  by (induction ci idx xs rule: group_indices.induct) auto

lemma map_fst_group_indices_replicate:
  "map fst (group_indices ci idx (replicate n c)) =
     (if n = 0 \<or> c \<in> fst ` set ci then map fst ci else map fst ci @ [c])"
proof (induction n arbitrary: ci idx)
  case 0
  show ?case by simp
next
  case (Suc n)
  have "c \<in> fst ` set (append_index ci c idx)"
    using map_fst_append_index [of ci c idx]
    by (metis (no_types, lifting) in_set_conv_decomp list.set_map)
  then show ?case
    by (simp add: Suc.IH map_fst_append_index)
qed

lemma category_indices_order:
  assumes "distinct (map fst cats)" and "fst ` set ci \<inter> fst ` set cats = {}"
  shows "map fst (group_indices ci idx (snd (flatten_prompts cats))) =
           map fst ci @ map fst (filter (\<lambda>(category, prompts). prompts \<noteq> []) cats)"
  using assms
proof (induction cats arbitrary: ci idx)
  case Nil
  show ?case by simp
next
  case (Cons a cats)
  obtain c ps where a: "a = (c, ps)" by (cases a)
  let ?ci = "group_indices ci idx (replicate (length ps) c)"
  have c: "c \<notin> fst ` set ci" "c \<notin> fst ` set cats"
    using Cons.prems a by auto
  have keys: "map fst ?ci = (if ps = [] then map fst ci else map fst ci @ [c])"
    using c by (simp add: map_fst_group_indices_replicate)
  have "set (map fst ?ci) \<inter> fst ` set cats = {}"
    unfolding keys using Cons.prems c by auto
  then have disj: "fst ` set ?ci \<inter> fst ` set cats = {}"
    by simp
  have "distinct (map fst cats)"
    using Cons.prems by simp
  from Cons.IH [OF this disj]
  show ?case
    by (simp add: a split_beta map_replicate_const group_indices_append keys)
qed

lemma category_indices_keys:
  assumes "distinct (map fst cats)"
  shows "map fst (group_indices [] 0 (snd (flatten_prompts cats))) =
           map fst (filter (\<lambda>(category, prompts). prompts \<noteq> []) cats)"
  using category_indices_order [OF assms, of "[]" 0] by simp

lemma count_own_prompts:
  assumes "distinct (map fst cats)" and "(c, ps) \<in> set cats"
  shows "length (filter (\<lambda>x. x = c) (snd (flatten_prompts cats))) = length ps"
  using assms
proof (induction cats)
  case Nil
  then show ?case by simp
next
  case (Cons a cats)
  obtain c' ps' where a: "a = (c', ps')" by (cases a)
  have none: "c \<notin> fst ` set cats \<Longrightarrow> filter (\<lambda>x. x = c) (snd (flatten_prompts cats)) = []"
    by (force simp: snd_flatten_prompts filter_empty_conv image_iff)
  show ?case
  proof (cases "c' = c")
    case True
    with Cons.prems a have "ps' = ps" and "c \<notin> fst ` set cats"
      by (auto simp: image_iff)
    with True none show ?thesis
      by (simp add: a split_beta map_replicate_const)
  next
    case False
    with Cons a show ?thesis
      by (auto simp: split_beta map_replicate_const)
  qed
qed

lemma length_enumerate_filter:
  "length (filter (\<lambda>(j, x). P x) (zip [i ..< i + length xs] xs)) = length (filter P xs)"
proof (induction xs arbitrary: i)
  case Nil
  show ?case by simp
next
  case (Cons x xs)
  from Cons.IH [of "Suc i"] show ?case
    by (simp add: upt_plus_Suc del: upt_Suc)
qed

lemma length_own_rows: "length (own_rows p2c c) = length (filter (\<lambda>x. x = c) p2c)"
  using length_enumerate_filter [of "\<lambda>x. x = c" 0 p2c] enumerate_filter [of "\<lambda>x. x = c" p2c]
  by (simp add: own_rows_def) (metis length_map)

lemma own_rows_lookup:
  assumes "precompute_text_features model categories = Inr (tf, p2c, ci)"
    and "(category, prompts) \<in> set categories" and "prompts \<noteq> []"
  shows "map_of ci category = Some (own_rows p2c category)"
proof -
  from assms(1) have p2c: "p2c = snd (flatten_prompts categories)"
    and ci: "ci = group_indices [] 0 p2c"
    by (auto simp: precompute_text_features_Inr)
  have "category \<in> set p2c"
    unfolding p2c set_snd_flatten_prompts using assms(2,3) by blast
  then show ?thesis
    unfolding ci by (simp add: category_indices_own_rows)
qed

subsection \<open>Normalisation\<close>

text \<open>When the norm that torch computes is zero, every entry is divided by zero: the
  result has no number in it.\<close>

lemma l2_normalize_zero_norm:
  "tensor_norm model v = Num 0 \<Longrightarrow> l2_normalize model v = map divide_by_zero v"
  by (simp add: l2_normalize_def)

lemma length_l2_normalize: "length (l2_normalize model v) = length v"
  by (simp add: l2_normalize_def Let_def)

lemma divide_by_zero_not_Num: "divide_by_zero x \<noteq> Num r"
  by (cases x) auto

subsection \<open>Similarities and \<open>topk\<close>\<close>

lemma similarities_Inr:
  "similarities model img tf = Inr sims \<longleftrightarrow>
     list_all (\<lambda>row. length row = length img) tf
     \<and> sims = map (tensor_matmul model img tf) [0 ..< length tf]"
  by (auto simp: similarities_def)

lemma mset_insert_desc: "mset (insert_desc x xs) = add_mset x (mset xs)"
  by (induction xs) auto

lemma mset_sort_desc: "mset (sort_desc xs) = mset xs"
  unfolding sort_desc_def by (induction xs) (auto simp: mset_insert_desc)

lemma set_sort_desc: "set (sort_desc xs) = set xs"
  by (metis mset_sort_desc set_mset_mset)

lemma length_sort_desc: "length (sort_desc xs) = length xs"
  by (metis mset_sort_desc size_mset)

lemma fl_ge_total: "fl_ge a b \<or> fl_ge b a"
  by (cases a; cases b) auto

lemma fl_ge_trans: "fl_ge a b \<Longrightarrow> fl_ge b c \<Longrightarrow> fl_ge a c"
  by (cases a; cases b; cases c) auto

lemma sorted_insert_desc:
  "sorted_wrt fl_ge xs \<Longrightarrow> sorted_wrt fl_ge (insert_desc x xs)"
proof (induction xs)
  case Nil
  show ?case by simp
next
  case (Cons y ys)
  have set: "set (insert_desc x ys) = insert x (set ys)"
    by (metis mset_insert_desc set_mset_add_mset_insert set_mset_mset)
  show ?case
  proof (cases "fl_ge x y")
    case True
    with Cons.prems show ?thesis by (auto intro: fl_ge_trans)
  next
    case False
    with Cons fl_ge_total [of x y] show ?thesis by (auto simp: set)
  qed
qed

lemma sorted_sort_desc: "sorted_wrt fl_ge (sort_desc xs)"
  unfolding sort_desc_def by (induction xs) (auto simp: sorted_insert_desc)

lemma top_above_rest:
  "\<forall>x \<in> set (take k (sort_desc xs)). \<forall>y \<in> set (drop k (sort_desc xs)). fl_ge x y"
  using sorted_sort_desc [of xs] sorted_wrt_append [of fl_ge "take k (sort_desc xs)" "drop k (sort_desc xs)"]
  by simp

subsection \<open>The score of a category\<close>

lemma category_score_Inr:
  "category_score model sims idxs top_k = Inr s \<longleftrightarrow>
     list_all (\<lambda>i. i < length sims) idxs \<and> 0 \<le> min top_k (int (length idxs))
     \<and> s = tensor_mean model (take (nat (min top_k (int (length idxs))))
                                (sort_desc (map (\<lambda>i. sims ! i) idxs)))"
  by (auto simp: category_score_def and_then_Inr index_select_def topk_def Let_def)

lemma category_score_returns:
  assumes "list_all (\<lambda>i. i < length sims) idxs" and "0 \<le> k"
  shows "\<exists>s. category_score model sims idxs k = Inr s"
  using assms by (simp add: category_score_Inr)

lemma score_categories_Inr:
  "score_categories model sims ci k = Inr scores \<longleftrightarrow>
     list_all2 (\<lambda>(c, idxs) (c', s). c' = c \<and> category_score model sims idxs k = Inr s)
       ci scores"
proof (induction ci arbitrary: scores)
  case Nil
  show ?case by auto
next
  case (Cons a ci)
  obtain c idxs where a: "a = (c, idxs)" by (cases a)
  show ?case
    unfolding a by (auto simp: and_then_Inr Cons.IH list_all2_Cons1)
qed

lemma score_categories_keys:
  "score_categories model sims ci k = Inr scores \<Longrightarrow> map fst scores = map fst ci"
  unfolding score_categories_Inr
  by (induction ci scores rule: list_all2_induct) auto

lemma score_categories_lookup:
  "score_categories model sims ci k = Inr scores \<Longrightarrow> map_of ci c = Some idxs \<Longrightarrow>
     \<exists>s. map_of scores c = Some s \<and> category_score model sims idxs k = Inr s"
proof (induction ci arbitrary: scores)
  case Nil
  then show ?case by simp
next
  case (Cons a ci)
  obtain c' idxs' where a: "a = (c', idxs')" by (cases a)
  from Cons.prems(1) obtain s' rest where s': "category_score model sims idxs' k = Inr s'"
    and rest: "score_categories model sims ci k = Inr rest" and scores: "scores = (c', s') # rest"
    unfolding a by (auto simp: and_then_Inr)
  show ?case
  proof (cases "c' = c")
    case True
    with Cons.prems(2) a s' scores show ?thesis by simp
  next
    case False
    with Cons.prems(2) a have "map_of ci c = Some idxs" by simp
    from Cons.IH [OF rest this] False scores show ?thesis by simp
  qed
qed

lemma score_categories_returns:
  assumes "list_all (\<lambda>(c, idxs). list_all (\<lambda>i. i < length sims) idxs) ci" and "0 \<le> k"
  shows "\<exists>scores. score_categories model sims ci k = Inr scores"
  using assms(1)
proof (induction ci)
  case Nil
  show ?case by simp
next
  case (Cons a ci)
  obtain c idxs where a: "a = (c, idxs)" by (cases a)
  from Cons.prems a have "list_all (\<lambda>i. i < length sims) idxs" by simp
  from category_score_returns [OF this assms(2)] obtain s where
    "category_score model sims idxs k = Inr s" by blast
  moreover from Cons obtain scores where "score_categories model sims ci k = Inr scores"
    by auto
  ultimately show ?case
    by (simp add: a and_then_def)
qed

subsection \<open>The winner\<close>

lemma max_score_Inr:
  "max_score scores = Inr r \<longleftrightarrow> (\<exists>x xs. scores = x # xs \<and> r = max_from x xs)"
  by (cases scores) (auto simp: max_score_def)

lemma max_score_mem: "max_score scores = Inr r \<Longrightarrow> r \<in> set scores"
proof -
  have "max_from b xs \<in> set (b # xs)" for b xs
    by (induction xs arbitrary: b) auto
  then show "max_score scores = Inr r \<Longrightarrow> r \<in> set scores"
    unfolding max_score_Inr by auto
qed

lemma fl_gt_irrefl [simp]: "\<not> fl_gt s s"
  by (cases s) auto

lemma fl_gt_trans: "fl_gt a b \<Longrightarrow> fl_gt b c \<Longrightarrow> fl_gt a c"
  by (cases a; cases b; cases c) auto

lemma fl_gt_not_trans: "fl_gt a b \<Longrightarrow> \<not> fl_gt s b \<Longrightarrow> \<not> fl_gt s a"
  by (cases a; cases b; cases s) auto

lemma fl_gt_not_eq: "fl_gt a b \<Longrightarrow> \<not> fl_gt s b \<Longrightarrow> s \<noteq> a"
  by (cases a; cases b; cases s) auto

lemma max_from_mono: "fl_gt (snd b) s \<Longrightarrow> fl_gt (snd (max_from b xs)) s"
  by (induction xs arbitrary: b) (auto intro: fl_gt_trans)

lemma max_from_upper: "\<not> fl_gt s (snd b) \<Longrightarrow> \<not> fl_gt s (snd (max_from b xs))"
  by (induction xs arbitrary: b) (auto dest: fl_gt_not_trans)

lemma max_from_greatest:
  "x \<in> set (b # xs) \<Longrightarrow> \<not> fl_gt (snd x) (snd (max_from b xs))"
proof (induction xs arbitrary: b)
  case Nil
  then show ?case by simp
next
  case (Cons y ys)
  let ?b = "if fl_gt (snd y) (snd b) then y else b"
  have b: "\<not> fl_gt (snd b) (snd ?b)"
    by (cases "snd y"; cases "snd b") auto
  have y: "\<not> fl_gt (snd y) (snd ?b)"
    by simp
  from Cons.prems consider "x = b" | "x = y" | "x \<in> set ys" by auto
  then show ?case
  proof cases
    case 1
    with b show ?thesis using max_from_upper [of "snd b" ?b ys] by simp
  next
    case 2
    with y show ?thesis using max_from_upper [of "snd y" ?b ys] by simp
  next
    case 3
    then show ?thesis using Cons.IH [of ?b] by simp
  qed
qed

lemma max_from_same_or_greater:
  "max_from b xs = b \<or> fl_gt (snd (max_from b xs)) (snd b)"
proof (induction xs arbitrary: b)
  case Nil
  show ?case by simp
next
  case (Cons z zs)
  show ?case
    using Cons.IH [of "if fl_gt (snd z) (snd b) then z else b"]
    by (auto intro: max_from_mono)
qed

lemma max_from_first:
  "\<exists>earlier later. b # xs = earlier @ max_from b xs # later
      \<and> (\<forall>x \<in> set earlier. snd x \<noteq> snd (max_from b xs))"
proof (induction xs arbitrary: b)
  case Nil
  have "[b] = [] @ max_from b [] # []" by simp
  then show ?case by fastforce
next
  case (Cons y ys)
  show ?case
  proof (cases "fl_gt (snd y) (snd b)")
    case True
    then have r: "max_from b (y # ys) = max_from y ys" by simp
    from Cons.IH [of y] obtain earlier later where
      s: "y # ys = earlier @ max_from y ys # later"
      and d: "\<forall>x \<in> set earlier. snd x \<noteq> snd (max_from y ys)"
      by blast
    have "fl_gt (snd (max_from y ys)) (snd b)"
      using True by (rule max_from_mono)
    then have "snd b \<noteq> snd (max_from y ys)"
      by auto
    with d have d': "\<forall>x \<in> set (b # earlier). snd x \<noteq> snd (max_from y ys)"
      by simp
    have "b # y # ys = (b # earlier) @ max_from y ys # later"
      using s by simp
    with d' show ?thesis unfolding r by blast
  next
    case False
    then have r: "max_from b (y # ys) = max_from b ys" by simp
    from Cons.IH [of b] obtain earlier later where
      s: "b # ys = earlier @ max_from b ys # later"
      and d: "\<forall>x \<in> set earlier. snd x \<noteq> snd (max_from b ys)"
      by blast
    show ?thesis
    proof (cases earlier)
      case Nil
      from s have "max_from b ys = b"
        unfolding Nil by (metis append_Nil list.inject)
      then have "b # y # ys = [] @ max_from b ys # (y # ys)" by simp
      then show ?thesis unfolding r by fastforce
    next
      case (Cons b' rest)
      from s have "b # ys = b' # (rest @ max_from b ys # later)"
        unfolding Cons by (simp only: append_Cons)
      then have b': "b' = b" and ys: "ys = rest @ max_from b ys # later"
        by (metis list.inject)+
      from d Cons b' have nb: "snd b \<noteq> snd (max_from b ys)"
        by simp
      with max_from_same_or_greater [of b ys]
      have gt: "fl_gt (snd (max_from b ys)) (snd b)"
        by auto
      have "snd y \<noteq> snd (max_from b ys)"
        using gt False by (rule fl_gt_not_eq)
      with d Cons b' have d': "\<forall>x \<in> set (b # y # rest). snd x \<noteq> snd (max_from b ys)"
        by simp
      have "b # y # ys = (b # y # rest) @ max_from b ys # later"
        using ys by simp
      with d' show ?thesis unfolding r by blast
    qed
  qed
qed

text \<open>Between two values other than NaN, \<open>not greater\<close> is \<open>at most\<close>.\<close>

lemma not_fl_gt_iff: "s \<noteq> NaN \<Longrightarrow> c \<noteq> NaN \<Longrightarrow> \<not> fl_gt s c \<longleftrightarrow> fl_ge c s"
  by (cases s; cases c) auto

subsection \<open>One image\<close>

lemma score_image_Inr:
  "score_image m img tf ci k = Inr (b, conf, scores) \<longleftrightarrow>
     (\<exists>features sims. get_image_features m img = Inr features
        \<and> similarities m (l2_normalize m features) tf = Inr sims
        \<and> score_categories m sims ci k = Inr scores
        \<and> max_score scores = Inr (b, conf))"
  by (auto simp: score_image_def and_then_Inr Let_def)

lemma classify_image_Some:
  "classify_image e p m tf ci k = (Some b, Some conf, Some scores, err) \<longleftrightarrow>
     (\<exists>img. image_open e p = Inr img \<and> score_image m img tf ci k = Inr (b, conf, scores))
     \<and> err = None"
  by (auto simp: classify_image_def split: sum.splits)

text \<open>Scoring returns whenever the image is embedded, the index has rows of the
  embedding's dimension, the row indices of the categories are in range, there is a
  category and \<open>top_k\<close> is not negative; the norm of the embedding plays no part.\<close>

lemma score_image_returns:
  assumes "get_image_features model img = Inr w"
    and "list_all (\<lambda>row. length row = length w) tf"
    and "list_all (\<lambda>(c, idxs). list_all (\<lambda>i. i < length tf) idxs) ci"
    and "ci \<noteq> []" and "0 \<le> top_k"
  shows "\<exists>best confidence scores.
           score_image model img tf ci top_k = Inr (best, confidence, scores)"
proof -
  let ?sims = "map (tensor_matmul model (l2_normalize model w) tf) [0 ..< length tf]"
  have sims: "similarities model (l2_normalize model w) tf = Inr ?sims"
    using assms(2) by (simp add: similarities_def length_l2_normalize)
  have "list_all (\<lambda>(c, idxs). list_all (\<lambda>i. i < length ?sims) idxs) ci"
    using assms(3) by simp
  from score_categories_returns [OF this assms(5)] obtain scores where
    scores: "score_categories model ?sims ci top_k = Inr scores" by blast
  from score_categories_keys [OF scores] assms(4) have "scores \<noteq> []"
    by auto
  then obtain x xs where "scores = x # xs"
    by (cases scores) auto
  then have "max_score scores = Inr (fst (max_from x xs), snd (max_from x xs))"
    by (simp add: max_score_def)
  with assms(1) sims scores show ?thesis
    unfolding score_image_Inr by blast
qed

subsection \<open>The batch loop in closed form\<close>

text \<open>The loop adds two events per image to the trace, one entry to \<open>results\<close> for each
  image whose \<open>error\<close> is false in Python, and one entry to \<open>errors\<close> for each other
  image.\<close>

lemma classify_loop_eq:
  "classify_loop e m tf ci k n idx ps (tr, rs, es) =
     (tr @ concat (map (\<lambda>(i, p). [send_progress (Suc i) n, Classify p])
                    (zip [idx ..< idx + length ps] ps)),
      rs @ map (\<lambda>p. case classify_image e p m tf ci k of
                       (category, confidence, scores, error) \<Rightarrow>
                         \<lparr>res_path = p, res_category = category,
                          res_confidence = confidence, res_scores = scores\<rparr>)
             (filter (\<lambda>p. \<not> truthy (snd (snd (snd (classify_image e p m tf ci k))))) ps),
      es @ map (\<lambda>p. \<lparr>err_path = p,
                       err_error = the (snd (snd (snd (classify_image e p m tf ci k))))\<rparr>)
             (filter (\<lambda>p. truthy (snd (snd (snd (classify_image e p m tf ci k))))) ps))"
proof (induction ps arbitrary: idx tr rs es)
  case Nil
  show ?case by simp
next
  case (Cons p ps)
  obtain c conf sc err where ci: "classify_image e p m tf ci k = (c, conf, sc, err)"
    by (cases "classify_image e p m tf ci k") auto
  show ?case
    by (simp add: Cons.IH Let_def ci upt_plus_Suc del: upt_Suc)
qed

subsection \<open>The three ways through \<open>handle_classify\<close>\<close>

lemma handle_classify_load_fails:
  assumes "load_model e (request_model_name request) (get_device e) = Inl msg"
  shows "handle_classify e request =
           ([Stdout (Status (''Loading model on '' @ get_device e @ ''...'')),
             Load_model (request_model_name request) (get_device e),
             Stdout (Error (''Failed to load model: '' @ msg))], None)"
  using assms by (simp add: handle_classify_def Let_def)

lemma handle_classify_embed_fails:
  assumes "load_model e (request_model_name request) (get_device e) = Inr model"
    and "precompute_text_features model (request_categories request) = Inl msg"
  shows "handle_classify e request =
           ([Stdout (Status (''Loading model on '' @ get_device e @ ''...'')),
             Load_model (request_model_name request) (get_device e),
             Stdout (Status ''Precomputing text features...''),
             Embed_text (fst (flatten_prompts (request_categories request)))], Some msg)"
  using assms by (simp add: handle_classify_def Let_def)

lemma handle_classify_loop:
  assumes "load_model e (request_model_name request) (get_device e) = Inr model"
    and "precompute_text_features model (request_categories request) = Inr (tf, p2c, ci)"
  shows "handle_classify e request =
           (case classify_loop e model tf ci (request_top_k request)
                   (length (request_images request)) 0 (request_images request)
                   ([Stdout (Status (''Loading model on '' @ get_device e @ ''...'')),
                     Load_model (request_model_name request) (get_device e),
                     Stdout (Status ''Precomputing text features...''),
                     Embed_text (fst (flatten_prompts (request_categories request)))], [], [])
            of (trace, results, errors) \<Rightarrow>
               (trace @ [Stdout (Success (get_device e) results errors)], None))"
  using assms by (simp add: handle_classify_def Let_def)

lemma handle_classify_first:
  "\<exists>rest. fst (handle_classify e request) =
       Stdout (Status (''Loading model on '' @ get_device e @ ''...'')) # rest"
proof (cases "load_model e (request_model_name request) (get_device e)")
  case (Inl msg)
  then show ?thesis by (simp add: handle_classify_load_fails)
next
  case (Inr model)
  show ?thesis
  proof (cases "precompute_text_features model (request_categories request)")
    case (Inl msg)
    with Inr show ?thesis by (simp add: handle_classify_embed_fails)
  next
    case (Inr r)
    obtain tf p2c ci where r: "r = (tf, p2c, ci)" by (cases r)
    from \<open>load_model _ _ _ = Inr model\<close> Inr r show ?thesis
      by (simp add: handle_classify_loop classify_loop_eq)
  qed
qed

text \<open>When the model loads and the index is built, the run ends with a success response;
  \<open>results\<close> holds the images whose \<open>error\<close> is false in Python and \<open>errors\<close> the
  others, both in input order.\<close>

lemma handle_classify_partition:
  assumes "load_model e (request_model_name request) (get_device e) = Inr model"
    and "precompute_text_features model (request_categories request) = Inr (tf, p2c, ci)"
  shows "\<exists>trace results errors.
           handle_classify e request =
             (trace @ [Stdout (Success (get_device e) results errors)], None)
           \<and> map res_path results =
               filter (\<lambda>p. \<not> truthy (snd (snd (snd
                    (classify_image e p model tf ci (request_top_k request))))))
                 (request_images request)
           \<and> map err_path errors =
               filter (\<lambda>p. truthy (snd (snd (snd
                    (classify_image e p model tf ci (request_top_k request))))))
                 (request_images request)"
  by (simp add: handle_classify_loop [OF assms] classify_loop_eq comp_def split_beta)

text \<open>A failed image whose message is not empty is reported in \<open>errors\<close>, with its path
  and message, and not in \<open>results\<close>.\<close>

lemma failure_with_message_is_reported:
  assumes "load_model e (request_model_name request) (get_device e) = Inr model"
    and "precompute_text_features model (request_categories request) = Inr (tf, p2c, ci)"
    and "p \<in> set (request_images request)"
    and "classify_image e p model tf ci (request_top_k request) = (c, conf, sc, Some msg)"
    and "msg \<noteq> []"
  shows "\<exists>trace results errors.
           handle_classify e request =
             (trace @ [Stdout (Success (get_device e) results errors)], None)
           \<and> \<lparr>err_path = p, err_error = msg\<rparr> \<in> set errors
           \<and> p \<notin> res_path ` set results"
proof -
  let ?err = "\<lambda>p. snd (snd (snd (classify_image e p model tf ci (request_top_k request))))"
  let ?results = "map (\<lambda>p. case classify_image e p model tf ci (request_top_k request) of
                       (category, confidence, scores, error) \<Rightarrow>
                         \<lparr>res_path = p, res_category = category,
                          res_confidence = confidence, res_scores = scores\<rparr>)
             (filter (\<lambda>p. \<not> truthy (?err p)) (request_images request))"
  let ?errors = "map (\<lambda>p. \<lparr>err_path = p, err_error = the (?err p)\<rparr>)
             (filter (\<lambda>p. truthy (?err p)) (request_images request))"
  have run: "\<exists>trace. handle_classify e request =
               (trace @ [Stdout (Success (get_device e) ?results ?errors)], None)"
    by (simp add: handle_classify_loop [OF assms(1,2)] classify_loop_eq)
  have t: "truthy (?err p)" and m: "the (?err p) = msg"
    using assms(4,5) by simp_all
  from t m assms(3) have "\<lparr>err_path = p, err_error = msg\<rparr> \<in> set ?errors"
    by (auto simp: image_iff intro!: bexI [of _ p])
  moreover from t have "p \<notin> res_path ` set ?results"
    by (auto simp: split_beta)
  ultimately show ?thesis
    using run by blast
qed

lemma request_without_empty:
  fixes request :: request
  defines "r' \<equiv> request\<lparr>req_config := Some ((request_config request)\<lparr>cfg_categories :=
         Some (filter (\<lambda>(c, prompts). prompts \<noteq> []) (request_categories request))\<rparr>)\<rparr>"
  shows "request_images r' = request_images request"
    and "request_model_name r' = request_model_name request"
    and "request_top_k r' = request_top_k request"
    and "request_categories r' =
           filter (\<lambda>(c, prompts). prompts \<noteq> []) (request_categories request)"
  by (simp_all add: r'_def request_images_def request_model_name_def request_top_k_def
      request_categories_def request_config_def)

subsection \<open>Running the small environment\<close>

lemma demo_norm:
  "tensor_norm demo_model [Num 1, Num 0] = Num 1"
  "tensor_norm demo_model [Num 0, Num 1] = Num 1"
  "tensor_norm demo_model [Num 0, Num 2] = Num 2"
  "tensor_norm demo_model [Num 0, Num 0] = Num 0"
  by (simp_all add: demo_model_def exact_sum_def)

text \<open>The fields of the small model, without its norm, which \<open>demo_norm\<close> gives on
  the vectors met.\<close>

lemma demo_model_fields:
  "get_text_features demo_model =
     (\<lambda>prompts. if prompts = [] then Inl ''empty batch''
                else Inr (map demo_text_vector prompts))"
  "get_image_features demo_model =
     (\<lambda>img. Inr (if img = 0 then [Num 1, Num 0]
                  else if img = 1 then [Num 0, Num 1]
                  else [Num 0, Num 0]))"
  "tensor_true_divide demo_model = exact_divide"
  "tensor_matmul demo_model = (\<lambda>img t j. exact_sum (map2 exact_mul img (t ! j)))"
  "tensor_mean demo_model =
     (\<lambda>t. if t = [] then NaN else exact_divide (exact_sum t) (Num (real (length t))))"
  by (simp_all add: demo_model_def)

lemmas demo_eval =
  main_def demo_env_def demo_request_def handle_classify_def handle_check_def Let_def
  request_images_def request_model_name_def request_categories_def request_top_k_def
  request_config_def get_device_def load_model_def precompute_text_features_def
  demo_categories_def and_then_def demo_text_vector_def l2_normalize_def
  classify_image_def score_image_def similarities_def category_score_def
  index_select_def topk_def sort_desc_def max_score_def send_progress_def
  demo_norm demo_model_fields exact_sum_def

lemma demo_index:
  "precompute_text_features demo_model demo_categories =
     Inr ([[Num 1, Num 0], [Num 0, Num 1], [Num 0, Num 1]], [''cat'', ''cat'', ''dog''],
          [(''cat'', [0, 1]), (''dog'', [2])])"
  by (simp add: demo_eval)

lemma demo_classify_cat:
  "classify_image (demo_env r) ''cat.jpg'' demo_model
     [[Num 1, Num 0], [Num 0, Num 1], [Num 0, Num 1]] [(''cat'', [0, 1]), (''dog'', [2])] 3 =
   (Some ''cat'', Some (Num (1 / 2)), Some [(''cat'', Num (1 / 2)), (''dog'', Num 0)], None)"
  by (simp add: demo_eval)

lemma demo_classify_dog:
  "classify_image (demo_env r) ''dog.jpg'' demo_model
     [[Num 1, Num 0], [Num 0, Num 1], [Num 0, Num 1]] [(''cat'', [0, 1]), (''dog'', [2])] 1 =
   (Some ''cat'', Some (Num 1), Some [(''cat'', Num 1), (''dog'', Num 1)], None)"
  by (simp add: demo_eval)

subsection \<open>The exceptions of reading and parsing\<close>

text \<open>A JSONDecodeError is caught and answered; any other exception of lines 203 and 204
  leaves \<open>main\<close> with nothing printed. A command other than \<open>classify\<close> and \<open>check\<close>
  is answered with an error response.\<close>

lemma main_json_decode_error:
  "json_loads e input_data = Inl (JSONDecodeError msg) \<Longrightarrow>
     main e input_data = ([Stdout (Error (''Invalid JSON input: '' @ msg))], Exit 1)"
  by (simp add: main_def)

lemma main_other_read_error:
  "json_loads e input_data = Inl (UnicodeDecodeError msg)
     \<or> json_loads e input_data = Inl (RecursionError msg)
     \<or> json_loads e input_data = Inl (OtherException msg) \<Longrightarrow>
   main e input_data = ([], Uncaught msg)"
  by (auto simp: main_def)

lemma main_unknown_command:
  "json_loads e input_data = Inr request \<Longrightarrow> req_command request = Some command \<Longrightarrow>
   command \<noteq> ''classify'' \<Longrightarrow> command \<noteq> ''check'' \<Longrightarrow>
     main e input_data = ([Stdout (Error (''Unknown command: '' @ command))], Exit 1)"
  by (simp add: main_def)

text \<open>The small environment on deeply nested input.\<close>

lemma replicate_not_single: "1 < n \<Longrightarrow> replicate n c \<noteq> [d]"
proof
  assume "1 < n" and "replicate n c = [d]"
  from this(2) have "length (replicate n c) = length [d]"
    by (rule arg_cong)
  with \<open>1 < n\<close> show False
    by simp
qed

lemma demo_json_loads_nested:
  assumes "1000 \<le> n"
  shows "json_loads (demo_env request) (replicate n (CHR ''['')) =
           Inl (RecursionError ''maximum recursion depth exceeded'')"
proof -
  from assms have "replicate n (CHR ''['') \<noteq> ''{''"
    by (intro replicate_not_single) simp
  moreover have "list_all (\<lambda>c. c = CHR ''['') (replicate n (CHR ''[''))"
    by (simp add: list_all_iff)
  ultimately show ?thesis
    using assms by (simp add: demo_env_def)
qed

section \<open>The claims\<close>

subsection \<open>C1: the score of a category\<close>

text \<open>
  C1. Let the request's categories be a dict (distinct names), the index be built from
  them, and an image be classified with \<open>top_k \<ge> 1\<close>. The categories that are scored
  are those with at least one prompt. For every such category, the score reported for it
  is \<open>category_score\<close> of the similarity vector (torch's product of the normalised image
  embedding with the rows of the index) at the category's own rows, which are as many as
  its prompts. That score is torch's \<open>mean\<close> of a list \<open>top\<close> of
  \<open>min(top_k, number of prompts)\<close> of these similarities such that no similarity left
  out ranks above one in \<open>top\<close>. When \<open>top_k\<close> is at least the number of prompts,
  \<open>top_k\<close> equal to that number gives the same score.
\<close>

theorem category_score_is_top_k_mean:
  assumes "distinct (map fst categories)"
    and "precompute_text_features model categories = Inr (text_features, p2c, ci)"
    and "image_open e image_path = Inr img"
    and "get_image_features model img = Inr features"
    and "classify_image e image_path model text_features ci top_k =
           (Some best, Some confidence, Some scores, err)"
    and "1 \<le> top_k"
    and "(category, prompts) \<in> set categories" and "prompts \<noteq> []"
  shows "map fst scores = map fst (filter (\<lambda>(c, ps). ps \<noteq> []) categories)
       \<and> (\<exists>score top rest all_similarities.
           similarities model (l2_normalize model features) text_features =
             Inr all_similarities
         \<and> map_of scores category = Some score
         \<and> category_score model all_similarities (own_rows p2c category) top_k = Inr score
         \<and> length (own_rows p2c category) = length prompts
         \<and> mset top + mset rest =
             mset (map (\<lambda>row. tensor_matmul model (l2_normalize model features)
                                text_features row)
                     (own_rows p2c category))
         \<and> length top = min (nat top_k) (length prompts)
         \<and> (\<forall>x \<in> set top. \<forall>y \<in> set rest. fl_ge x y)
         \<and> score = tensor_mean model top
         \<and> (int (length prompts) \<le> top_k \<longrightarrow>
              category_score model all_similarities (own_rows p2c category)
                (int (length prompts)) = Inr score))"
proof -
  let ?img = "l2_normalize model features"
  let ?sims = "map (tensor_matmul model ?img text_features) [0 ..< length text_features]"
  let ?rows = "own_rows p2c category"
  let ?k = "nat (min top_k (int (length ?rows)))"
  let ?picked = "map (\<lambda>row. tensor_matmul model ?img text_features row) ?rows"
  from assms(3,4,5) have sims: "similarities model ?img text_features = Inr ?sims"
    and sc: "score_categories model ?sims ci top_k = Inr scores"
    by (auto simp: classify_image_Some score_image_Inr similarities_Inr)
  have rows: "map_of ci category = Some ?rows"
    using assms(2,7,8) by (rule own_rows_lookup)
  from score_categories_lookup [OF sc rows] obtain score where
    lookup: "map_of scores category = Some score"
    and cs: "category_score model ?sims ?rows top_k = Inr score"
    by blast
  from cs have in_range: "list_all (\<lambda>i. i < length ?sims) ?rows"
    and score: "score = tensor_mean model (take ?k (sort_desc (map (\<lambda>i. ?sims ! i) ?rows)))"
    by (simp_all add: category_score_Inr)
  have vals: "map (\<lambda>i. ?sims ! i) ?rows = ?picked"
    using in_range by (auto simp: list_all_iff)
  from assms(2) have p2c: "p2c = snd (flatten_prompts categories)"
    by (auto simp: precompute_text_features_Inr)
  have n: "length ?rows = length prompts"
    unfolding length_own_rows p2c using assms(1,7) by (rule count_own_prompts)
  let ?top = "take ?k (sort_desc ?picked)"
  let ?rest = "drop ?k (sort_desc ?picked)"
  have "mset ?top + mset ?rest = mset (sort_desc ?picked)"
    by (metis append_take_drop_id mset_append)
  then have parts: "mset ?top + mset ?rest = mset ?picked"
    by (simp only: mset_sort_desc)
  have len: "length ?top = min (nat top_k) (length prompts)"
    using n assms(6) by (simp add: length_sort_desc)
  have above: "\<forall>x \<in> set ?top. \<forall>y \<in> set ?rest. fl_ge x y"
    by (rule top_above_rest)
  have mean: "score = tensor_mean model ?top"
    using score by (simp only: vals)
  have clip: "category_score model ?sims ?rows (int (length prompts)) = Inr score"
    if "int (length prompts) \<le> top_k"
  proof -
    from that n have "min top_k (int (length ?rows)) = min (int (length prompts)) (int (length ?rows))"
      by simp
    with cs show ?thesis
      by (simp add: category_score_Inr)
  qed
  from assms(2) have "ci = group_indices [] 0 (snd (flatten_prompts categories))"
    by (auto simp: precompute_text_features_Inr)
  then have keys: "map fst scores = map fst (filter (\<lambda>(c, ps). ps \<noteq> []) categories)"
    using score_categories_keys [OF sc] category_indices_keys [OF assms(1)] by simp
  from sims lookup cs n parts len above mean clip
  have "\<exists>score top rest all_similarities.
           similarities model ?img text_features = Inr all_similarities
         \<and> map_of scores category = Some score
         \<and> category_score model all_similarities ?rows top_k = Inr score
         \<and> length ?rows = length prompts
         \<and> mset top + mset rest = mset ?picked
         \<and> length top = min (nat top_k) (length prompts)
         \<and> (\<forall>x \<in> set top. \<forall>y \<in> set rest. fl_ge x y)
         \<and> score = tensor_mean model top
         \<and> (int (length prompts) \<le> top_k \<longrightarrow>
              category_score model all_similarities ?rows (int (length prompts)) = Inr score)"
    by blast
  with keys show ?thesis
    by (rule conjI)
qed

theorem category_score_is_top_k_mean_witness:
  "distinct (map fst demo_categories)
   \<and> precompute_text_features demo_model demo_categories =
       Inr ([[Num 1, Num 0], [Num 0, Num 1], [Num 0, Num 1]], [''cat'', ''cat'', ''dog''],
            [(''cat'', [0, 1]), (''dog'', [2])])
   \<and> image_open (demo_env (demo_request [''cat.jpg''])) ''cat.jpg'' = Inr 0
   \<and> get_image_features demo_model 0 = Inr [Num 1, Num 0]
   \<and> classify_image (demo_env (demo_request [''cat.jpg''])) ''cat.jpg'' demo_model
        [[Num 1, Num 0], [Num 0, Num 1], [Num 0, Num 1]] [(''cat'', [0, 1]), (''dog'', [2])] 3 =
       (Some ''cat'', Some (Num (1 / 2)), Some [(''cat'', Num (1 / 2)), (''dog'', Num 0)], None)
   \<and> (1 :: int) \<le> 3
   \<and> (''cat'', [''a photo of a cat'', ''a kitten'']) \<in> set demo_categories
   \<and> similarities demo_model (l2_normalize demo_model [Num 1, Num 0])
        [[Num 1, Num 0], [Num 0, Num 1], [Num 0, Num 1]] = Inr [Num 1, Num 0, Num 0]
   \<and> category_score demo_model [Num 1, Num 0, Num 0]
        (own_rows [''cat'', ''cat'', ''dog''] ''cat'') 3 = Inr (Num (1 / 2))
   \<and> length (own_rows [''cat'', ''cat'', ''dog''] ''cat'') = 2
   \<and> category_score demo_model [Num 1, Num 0, Num 0]
        (own_rows [''cat'', ''cat'', ''dog''] ''cat'') 2 = Inr (Num (1 / 2))"
proof -
  let ?e = "demo_env (demo_request [''cat.jpg''])"
  let ?tf = "[[Num 1, Num 0], [Num 0, Num 1], [Num 0, Num 1]]"
  have d: "distinct (map fst demo_categories)"
    by (simp add: demo_categories_def)
  have o: "image_open ?e ''cat.jpg'' = Inr 0"
    by (simp add: demo_env_def)
  have f: "get_image_features demo_model 0 = Inr [Num 1, Num 0]"
    by (simp add: demo_model_def)
  have k: "(1 :: int) \<le> 3"
    by simp
  have m: "(''cat'', [''a photo of a cat'', ''a kitten'']) \<in> set demo_categories"
    by (simp add: demo_categories_def)
  have n: "[''a photo of a cat'', ''a kitten''] \<noteq> []"
    by simp
  have s: "similarities demo_model (l2_normalize demo_model [Num 1, Num 0]) ?tf =
             Inr [Num 1, Num 0, Num 0]"
    by (simp add: demo_eval upt_rec)
  from category_score_is_top_k_mean [OF d demo_index o f demo_classify_cat k m n]
  obtain score all_similarities where
    "similarities demo_model (l2_normalize demo_model [Num 1, Num 0]) ?tf =
       Inr all_similarities"
    and "map_of [(''cat'', Num (1 / 2)), (''dog'', Num 0)] ''cat'' = Some score"
    and "category_score demo_model all_similarities
          (own_rows [''cat'', ''cat'', ''dog''] ''cat'') 3 = Inr score"
    and "length (own_rows [''cat'', ''cat'', ''dog''] ''cat'') =
           length [''a photo of a cat'', ''a kitten'']"
    and "int (length [''a photo of a cat'', ''a kitten'']) \<le> 3 \<longrightarrow>
           category_score demo_model all_similarities
            (own_rows [''cat'', ''cat'', ''dog''] ''cat'')
            (int (length [''a photo of a cat'', ''a kitten''])) = Inr score"
    by blast
  with d demo_index o f demo_classify_cat m s show ?thesis
    by simp
qed

subsection \<open>C2: the predicted category\<close>

text \<open>
  C2, as stated: the predicted category is to have the greatest score. In the run below
  the first category, \<open>void\<close>, has a prompt that embeds to the zero vector, so its score
  is NaN; Python's \<open>max\<close> keeps the first item because \<open>1 > NaN\<close> is false, and \<open>void\<close>
  is predicted with confidence NaN although \<open>cat\<close> scores 1.
\<close>

theorem nan_score_first_counterexample:
  "main (demo_env (demo_request [''cat.jpg''] \<lparr>req_config := Some \<lparr>cfg_model = None,
       cfg_categories = Some [(''void'', [''nothing'']), (''cat'', [''a photo of a cat''])],
       cfg_topK = Some 1\<rparr>\<rparr>)) ''{...}'' =
     ([Stdout (Status ''Loading model on cpu...''),
       Load_model ''openai/clip-vit-large-patch14'' ''cpu'',
       Stdout (Status ''Precomputing text features...''),
       Embed_text [''nothing'', ''a photo of a cat''],
       Stdout (Progress 1 1), Classify ''cat.jpg'',
       Stdout (Success ''cpu''
         [\<lparr>res_path = ''cat.jpg'', res_category = Some ''void'',
           res_confidence = Some NaN,
           res_scores = Some [(''void'', NaN), (''cat'', Num 1)]\<rparr>] [])],
      Exit 0)"
  by (simp add: demo_eval)

text \<open>
  C2, amended. For a classification that succeeds and in which no score is NaN, the
  scores are listed in the order in which the request declares the categories (those
  with a prompt); the predicted category stands in that list with the confidence as its
  score; the confidence is at least every score; and no category before the predicted
  one has the same score.
\<close>

theorem predicted_category_is_first_maximum:
  assumes "distinct (map fst categories)"
    and "precompute_text_features model categories = Inr (tf, p2c, ci)"
    and "classify_image e image_path model tf ci top_k =
           (Some best, Some confidence, Some scores, err)"
    and "\<forall>(c, s) \<in> set scores. s \<noteq> NaN"
  shows "map fst scores = map fst (filter (\<lambda>(category, prompts). prompts \<noteq> []) categories)
       \<and> (\<exists>earlier later. scores = earlier @ (best, confidence) # later
             \<and> (\<forall>(c, s) \<in> set earlier. s \<noteq> confidence))
       \<and> (\<forall>(c, s) \<in> set scores. fl_ge confidence s \<and> \<not> fl_gt s confidence)
       \<and> confidence \<noteq> NaN
       \<and> map_of scores best = Some confidence"
proof -
  from assms(3) obtain sims where sc: "score_categories model sims ci top_k = Inr scores"
    and mx: "max_score scores = Inr (best, confidence)"
    by (auto simp: classify_image_Some score_image_Inr)
  from assms(2) have ci: "ci = group_indices [] 0 (snd (flatten_prompts categories))"
    by (auto simp: precompute_text_features_Inr)
  have keys: "map fst scores = map fst (filter (\<lambda>(category, prompts). prompts \<noteq> []) categories)"
    using score_categories_keys [OF sc] category_indices_keys [OF assms(1)] ci by simp
  from mx obtain x xs where scores: "scores = x # xs" and win: "(best, confidence) = max_from x xs"
    by (auto simp: max_score_Inr)
  from max_from_first [of x xs] obtain earlier later where
    split: "x # xs = earlier @ max_from x xs # later"
    and diff: "\<forall>y \<in> set earlier. snd y \<noteq> snd (max_from x xs)"
    by blast
  have first: "\<exists>earlier later. scores = earlier @ (best, confidence) # later
             \<and> (\<forall>(c, s) \<in> set earlier. s \<noteq> confidence)"
  proof -
    have "scores = earlier @ (best, confidence) # later"
      using split by (simp only: scores win)
    moreover have "\<forall>(c, s) \<in> set earlier. s \<noteq> confidence"
      using diff by (auto simp: win [symmetric])
    ultimately show ?thesis by blast
  qed
  have mem: "(best, confidence) \<in> set scores"
    using mx by (rule max_score_mem)
  with assms(4) have number: "confidence \<noteq> NaN"
    by blast
  have greatest: "\<forall>(c, s) \<in> set scores. fl_ge confidence s \<and> \<not> fl_gt s confidence"
  proof -
    have "fl_ge confidence s \<and> \<not> fl_gt s confidence" if "(c, s) \<in> set scores" for c s
    proof -
      from that have "(c, s) \<in> set (x # xs)"
        by (simp only: scores)
      from max_from_greatest [OF this] have "\<not> fl_gt s (snd (max_from x xs))"
        by simp
      then have not_gt: "\<not> fl_gt s confidence"
        by (simp add: win [symmetric])
      from that assms(4) have "s \<noteq> NaN"
        by blast
      with number not_gt show ?thesis
        by (simp add: not_fl_gt_iff)
    qed
    then show ?thesis by blast
  qed
  have "distinct (map fst scores)"
    unfolding keys using assms(1) by (simp add: distinct_map_filter)
  with mem have lookup: "map_of scores best = Some confidence"
    by simp
  from keys first greatest number lookup show ?thesis by blast
qed

theorem predicted_category_is_first_maximum_witness:
  "distinct (map fst demo_categories)
   \<and> precompute_text_features demo_model demo_categories =
       Inr ([[Num 1, Num 0], [Num 0, Num 1], [Num 0, Num 1]], [''cat'', ''cat'', ''dog''],
            [(''cat'', [0, 1]), (''dog'', [2])])
   \<and> classify_image (demo_env (demo_request [''dog.jpg''])) ''dog.jpg'' demo_model
        [[Num 1, Num 0], [Num 0, Num 1], [Num 0, Num 1]] [(''cat'', [0, 1]), (''dog'', [2])] 1 =
       (Some ''cat'', Some (Num 1), Some [(''cat'', Num 1), (''dog'', Num 1)], None)
   \<and> Num 1 \<noteq> NaN
   \<and> map fst [(''cat'', Num 1), (''dog'', Num 1)] =
       map fst (filter (\<lambda>(category, prompts). prompts \<noteq> []) demo_categories)
   \<and> fl_ge (Num 1) (Num 1) \<and> \<not> fl_gt (Num 1) (Num 1)
   \<and> map_of [(''cat'', Num 1), (''dog'', Num 1)] ''cat'' = Some (Num 1)"
proof -
  have d: "distinct (map fst demo_categories)"
    by (simp add: demo_categories_def)
  have n: "\<forall>(c, s) \<in> set [(''cat'', Num 1), (''dog'', Num 1)]. s \<noteq> NaN"
    by simp
  note inst = predicted_category_is_first_maximum [OF d demo_index demo_classify_dog n]
  from inst have order: "map fst [(''cat'', Num 1), (''dog'', Num 1)] =
       map fst (filter (\<lambda>(category, prompts). prompts \<noteq> []) demo_categories)"
    by (rule conjunct1)
  from inst
  have "\<forall>(c, s) \<in> set [(''cat'', Num 1), (''dog'', Num 1)].
          fl_ge (Num 1) s \<and> \<not> fl_gt s (Num 1)"
    by (elim conjE)
  then have greatest: "fl_ge (Num 1) (Num 1) \<and> \<not> fl_gt (Num 1) (Num 1)"
    by simp
  from inst have lookup: "map_of [(''cat'', Num 1), (''dog'', Num 1)] ''cat'' = Some (Num 1)"
    by (elim conjE)
  have num: "Num 1 \<noteq> NaN"
    by simp
  from d demo_index demo_classify_dog num order greatest lookup show ?thesis
    by (intro conjI) (elim conjE, assumption)+
qed

subsection \<open>C3: embeddings of norm zero\<close>

text \<open>
  C3, as stated: a vector of norm zero is to make normalisation fail with
  DegenerateEmbeddingError. The worker has no such check. Below, the image
  \<open>black.png\<close> embeds to the zero vector and is classified, with confidence NaN; the
  prompt \<open>nothing\<close> embeds to the zero vector and the index is built with a row of NaN.
\<close>

theorem zero_norm_counterexample:
  "tensor_norm demo_model [Num 0, Num 0] = Num 0
   \<and> image_open (demo_env (demo_request [''black.png''])) ''black.png'' = Inr 2
   \<and> get_image_features demo_model 2 = Inr [Num 0, Num 0]
   \<and> classify_image (demo_env (demo_request [''black.png''])) ''black.png'' demo_model
        [[Num 1, Num 0], [Num 0, Num 1], [Num 0, Num 1]] [(''cat'', [0, 1]), (''dog'', [2])] 3 =
       (Some ''cat'', Some NaN, Some [(''cat'', NaN), (''dog'', NaN)], None)
   \<and> get_text_features demo_model [''a photo of a cat'', ''nothing''] =
       Inr [[Num 1, Num 0], [Num 0, Num 0]]
   \<and> precompute_text_features demo_model
        [(''cat'', [''a photo of a cat'']), (''void'', [''nothing''])] =
       Inr ([[Num 1, Num 0], [NaN, NaN]], [''cat'', ''void''], [(''cat'', [0]), (''void'', [1])])"
  by (simp add: demo_eval)

text \<open>
  C3, amended. When the norm that torch computes for a vector is exactly zero,
  normalisation does not fail: every entry is divided by zero under IEEE 754, a zero
  entry becoming NaN and any other number an infinity, so that no entry of the result is
  a number. Index construction succeeds whenever the text encoder returns, whatever the
  norms of the rows. An image whose embedding has norm zero is classified without an
  error whenever the index has rows of the embedding's dimension, the row indices of the
  categories are in range, there is a category and \<open>top_k \<ge> 0\<close>.
\<close>

theorem zero_norm_is_not_guarded:
  "(tensor_norm model v = Num 0 \<longrightarrow>
      l2_normalize model v = map divide_by_zero v
      \<and> (\<forall>x \<in> set (l2_normalize model v). \<forall>r. x \<noteq> Num r))
   \<and> (get_text_features model (fst (flatten_prompts categories)) = Inr features \<longrightarrow>
        (\<exists>p2c ci. precompute_text_features model categories =
                    Inr (map (l2_normalize model) features, p2c, ci)))
   \<and> (image_open e image_path = Inr img \<and> get_image_features model img = Inr w
        \<and> tensor_norm model w = Num 0
        \<and> list_all (\<lambda>row. length row = length w) tf
        \<and> list_all (\<lambda>(c, idxs). list_all (\<lambda>i. i < length tf) idxs) ci
        \<and> ci \<noteq> [] \<and> 0 \<le> top_k \<longrightarrow>
        (\<exists>best confidence scores.
           classify_image e image_path model tf ci top_k =
             (Some best, Some confidence, Some scores, None)))"
proof -
  have a: "l2_normalize model v = map divide_by_zero v
      \<and> (\<forall>x \<in> set (l2_normalize model v). \<forall>r. x \<noteq> Num r)"
    if "tensor_norm model v = Num 0"
    using that by (auto simp: l2_normalize_zero_norm divide_by_zero_not_Num)
  have b: "get_text_features model (fst (flatten_prompts categories)) = Inr features \<longrightarrow>
        (\<exists>p2c ci. precompute_text_features model categories =
                    Inr (map (l2_normalize model) features, p2c, ci))"
    by (simp add: precompute_text_features_Inr)
  have c: "\<exists>best confidence scores.
           classify_image e image_path model tf ci top_k =
             (Some best, Some confidence, Some scores, None)"
    if "image_open e image_path = Inr img" "get_image_features model img = Inr w"
       "list_all (\<lambda>row. length row = length w) tf"
       "list_all (\<lambda>(c, idxs). list_all (\<lambda>i. i < length tf) idxs) ci" "ci \<noteq> []" "0 \<le> top_k"
  proof -
    from score_image_returns [OF that(2,3,4,5,6)] obtain best confidence scores where
      "score_image model img tf ci top_k = Inr (best, confidence, scores)"
      by blast
    with that(1) show ?thesis
      by (simp add: classify_image_def)
  qed
  from a b c show ?thesis by blast
qed

theorem zero_norm_is_not_guarded_witness:
  "tensor_norm demo_model [Num 0, Num 0] = Num 0
   \<and> l2_normalize demo_model [Num 0, Num 0] = [NaN, NaN]
   \<and> get_text_features demo_model
        (fst (flatten_prompts [(''cat'', [''a photo of a cat'']), (''void'', [''nothing''])])) =
       Inr [[Num 1, Num 0], [Num 0, Num 0]]
   \<and> (\<exists>p2c ci. precompute_text_features demo_model
          [(''cat'', [''a photo of a cat'']), (''void'', [''nothing''])] =
        Inr ([[Num 1, Num 0], [NaN, NaN]], p2c, ci))
   \<and> image_open (demo_env (demo_request [''black.png''])) ''black.png'' = Inr 2
   \<and> get_image_features demo_model 2 = Inr [Num 0, Num 0]
   \<and> (\<exists>best confidence scores.
        classify_image (demo_env (demo_request [''black.png''])) ''black.png'' demo_model
          [[Num 1, Num 0], [Num 0, Num 1], [Num 0, Num 1]] [(''cat'', [0, 1]), (''dog'', [2])] 3 =
        (Some best, Some confidence, Some scores, None))"
proof -
  let ?e = "demo_env (demo_request [''black.png''])"
  let ?cats = "[(''cat'', [''a photo of a cat'']), (''void'', [''nothing''])]"
  let ?tf = "[[Num 1, Num 0], [Num 0, Num 1], [Num 0, Num 1]]"
  let ?ci = "[(''cat'', [0, 1]), (''dog'', [2::nat])]"
  have z: "tensor_norm demo_model [Num 0, Num 0] = Num 0"
    by (simp add: demo_norm)
  have t: "get_text_features demo_model (fst (flatten_prompts ?cats)) =
             Inr [[Num 1, Num 0], [Num 0, Num 0]]"
    by (simp add: demo_model_def demo_text_vector_def)
  have o: "image_open ?e ''black.png'' = Inr 2"
    by (simp add: demo_env_def)
  have f: "get_image_features demo_model 2 = Inr [Num 0, Num 0]"
    by (simp add: demo_model_def)
  have shape: "list_all (\<lambda>row. length row = length [Num 0, Num 0]) ?tf"
    "list_all (\<lambda>(c, idxs). list_all (\<lambda>i. i < length ?tf) idxs) ?ci" "?ci \<noteq> []" "(0 :: int) \<le> 3"
    by simp_all
  have rows: "map (l2_normalize demo_model) [[Num 1, Num 0], [Num 0, Num 0]] =
                [[Num 1, Num 0], [NaN, NaN]]"
    by (simp add: demo_eval)
  note inst = zero_norm_is_not_guarded
         [of demo_model "[Num 0, Num 0]" ?cats "[[Num 1, Num 0], [Num 0, Num 0]]" ?e
             "''black.png''" 2 "[Num 0, Num 0]" ?tf ?ci 3]
  from inst z have n: "l2_normalize demo_model [Num 0, Num 0] = [NaN, NaN]"
    by simp
  from inst t have p: "\<exists>p2c ci. precompute_text_features demo_model ?cats =
        Inr ([[Num 1, Num 0], [NaN, NaN]], p2c, ci)"
    unfolding rows by blast
  from inst z o f shape
  have c: "\<exists>best confidence scores.
        classify_image ?e ''black.png'' demo_model ?tf ?ci 3 =
        (Some best, Some confidence, Some scores, None)"
    by blast
  from z n t p o f c show ?thesis
    by (intro conjI)
qed

subsection \<open>C4: an image that cannot be decoded or embedded\<close>

text \<open>
  C4. A failed image is to become an entry of \<open>errors\<close> with its path and the message of
  the exception. The worker tests \<open>if error:\<close>, which is false for the empty string. In
  the run below the decoder raises an exception whose message is empty: the image is
  reported in \<open>results\<close> with category, confidence and scores \<open>None\<close>, and \<open>errors\<close>
  stays empty. The loop goes on and the process exits with code 0.
\<close>

theorem empty_message_failure_lands_in_results:
  "image_open (demo_env (demo_request [''huge.png''])) ''huge.png'' = Inl []
   \<and> classify_image (demo_env (demo_request [''huge.png''])) ''huge.png'' demo_model
        [[Num 1, Num 0], [Num 0, Num 1], [Num 0, Num 1]]
        [(''cat'', [0, 1]), (''dog'', [2])] 3 = (None, None, None, Some [])
   \<and> main (demo_env (demo_request [''huge.png''])) ''{...}'' =
       ([Stdout (Status ''Loading model on cpu...''),
         Load_model ''openai/clip-vit-large-patch14'' ''cpu'',
         Stdout (Status ''Precomputing text features...''),
         Embed_text [''a photo of a cat'', ''a kitten'', ''a photo of a dog''],
         Stdout (Progress 1 1),
         Classify ''huge.png'',
         Stdout (Success ''cpu''
           [\<lparr>res_path = ''huge.png'', res_category = None, res_confidence = None,
             res_scores = None\<rparr>] [])],
        Exit 0)"
  by (simp add: demo_eval)

subsection \<open>C5: the text encoder fails\<close>

text \<open>
  C5. When the batched text-embedding call raises, the request is to end with an error
  response. \<open>handle_classify\<close> calls \<open>precompute_text_features\<close> outside any
  \<open>try\<close>, unlike \<open>load_model\<close>: in the run below (no categories, and a text encoder that
  refuses the empty batch) the exception leaves \<open>main\<close> uncaught after the two status
  messages, and no error response is printed. No image is classified.
\<close>

theorem text_embedding_failure_is_uncaught:
  "main (demo_env (demo_request [''cat.jpg''] \<lparr>req_config := Some \<lparr>cfg_model = None,
       cfg_categories = Some [], cfg_topK = None\<rparr>\<rparr>)) ''{...}'' =
     ([Stdout (Status ''Loading model on cpu...''),
       Load_model ''openai/clip-vit-large-patch14'' ''cpu'',
       Stdout (Status ''Precomputing text features...''),
       Embed_text []], Uncaught ''empty batch'')"
  by (simp add: demo_eval)

subsection \<open>C6: results and errors partition the images\<close>

text \<open>
  C6. \<open>results\<close> is to hold exactly the classified images and \<open>errors\<close> exactly the
  failed ones. In the run below the second of three images cannot be decoded and its
  exception has an empty message: it is listed in \<open>results\<close> after the classified
  image, and only the third image, a missing file, is in \<open>errors\<close>.
\<close>

theorem failed_image_among_results:
  "main (demo_env (demo_request [''cat.jpg'', ''huge.png'', ''nope.jpg''])) ''{...}'' =
     ([Stdout (Status ''Loading model on cpu...''),
       Load_model ''openai/clip-vit-large-patch14'' ''cpu'',
       Stdout (Status ''Precomputing text features...''),
       Embed_text [''a photo of a cat'', ''a kitten'', ''a photo of a dog''],
       Stdout (Progress 1 3), Classify ''cat.jpg'',
       Stdout (Progress 2 3), Classify ''huge.png'',
       Stdout (Progress 3 3), Classify ''nope.jpg'',
       Stdout (Success ''cpu''
         [\<lparr>res_path = ''cat.jpg'', res_category = Some ''cat'',
           res_confidence = Some (Num (1 / 2)),
           res_scores = Some [(''cat'', Num (1 / 2)), (''dog'', Num 0)]\<rparr>,
          \<lparr>res_path = ''huge.png'', res_category = None, res_confidence = None,
           res_scores = None\<rparr>]
         [\<lparr>err_path = ''nope.jpg'', err_error = ''No such file or directory''\<rparr>])],
      Exit 0)"
  by (simp add: demo_eval)

subsection \<open>C7: progress messages\<close>

text \<open>
  C7, as stated, for every classify request: an empty \<open>images\<close> list is to end with
  status \<open>success\<close>. In the run below the model cannot be loaded, and the request with no
  images ends with an error response.
\<close>

theorem empty_batch_with_unknown_model_counterexample:
  "request_images (demo_request [] \<lparr>req_config := Some \<lparr>cfg_model = Some ''no/such-model'',
       cfg_categories = Some demo_categories, cfg_topK = None\<rparr>\<rparr>) = []
   \<and> main (demo_env (demo_request [] \<lparr>req_config := Some \<lparr>cfg_model = Some ''no/such-model'',
       cfg_categories = Some demo_categories, cfg_topK = None\<rparr>\<rparr>)) ''{...}'' =
     ([Stdout (Status ''Loading model on cpu...''),
       Load_model ''no/such-model'' ''cpu'',
       Stdout (Error ''Failed to load model: not a valid model identifier'')], Exit 0)"
  by (simp add: demo_eval)

text \<open>
  C7, amended. When the model loads and the index is built, the trace of
  \<open>handle_classify\<close> is the two status messages with their model calls, then for each
  image in input order the progress message \<open>(i, total)\<close> with \<open>i\<close> counted from 1,
  followed by the classification of that image, then the success response. With no
  images there is no progress message and the response has empty \<open>results\<close> and
  \<open>errors\<close>.
\<close>

theorem progress_before_each_image:
  assumes "load_model e (request_model_name request) (get_device e) = Inr model"
    and "precompute_text_features model (request_categories request) = Inr (tf, p2c, ci)"
  shows "(\<exists>results errors.
            handle_classify e request =
              ([Stdout (Status (''Loading model on '' @ get_device e @ ''...'')),
                Load_model (request_model_name request) (get_device e),
                Stdout (Status ''Precomputing text features...''),
                Embed_text (fst (flatten_prompts (request_categories request)))]
               @ concat (map (\<lambda>(i, image_path).
                               [Stdout (Progress (i + 1) (length (request_images request))),
                                Classify image_path])
                          (zip [0 ..< length (request_images request)] (request_images request)))
               @ [Stdout (Success (get_device e) results errors)], None))
       \<and> (request_images request = [] \<longrightarrow>
            handle_classify e request =
              ([Stdout (Status (''Loading model on '' @ get_device e @ ''...'')),
                Load_model (request_model_name request) (get_device e),
                Stdout (Status ''Precomputing text features...''),
                Embed_text (fst (flatten_prompts (request_categories request))),
                Stdout (Success (get_device e) [] [])], None))"
  by (simp add: handle_classify_loop [OF assms] classify_loop_eq send_progress_def)

theorem progress_before_each_image_witness:
  "load_model (demo_env (demo_request [''cat.jpg'', ''nope.jpg'']))
      (request_model_name (demo_request [''cat.jpg'', ''nope.jpg'']))
      (get_device (demo_env (demo_request [''cat.jpg'', ''nope.jpg'']))) = Inr demo_model
   \<and> precompute_text_features demo_model
        (request_categories (demo_request [''cat.jpg'', ''nope.jpg''])) =
       Inr ([[Num 1, Num 0], [Num 0, Num 1], [Num 0, Num 1]], [''cat'', ''cat'', ''dog''],
            [(''cat'', [0, 1]), (''dog'', [2])])
   \<and> (\<exists>results errors.
         handle_classify (demo_env (demo_request [''cat.jpg'', ''nope.jpg'']))
             (demo_request [''cat.jpg'', ''nope.jpg'']) =
           ([Stdout (Status ''Loading model on cpu...''),
             Load_model ''openai/clip-vit-large-patch14'' ''cpu'',
             Stdout (Status ''Precomputing text features...''),
             Embed_text [''a photo of a cat'', ''a kitten'', ''a photo of a dog''],
             Stdout (Progress 1 2), Classify ''cat.jpg'',
             Stdout (Progress 2 2), Classify ''nope.jpg'',
             Stdout (Success ''cpu'' results errors)], None))"
proof -
  let ?r = "demo_request [''cat.jpg'', ''nope.jpg'']"
  have l: "load_model (demo_env ?r) (request_model_name ?r) (get_device (demo_env ?r)) =
             Inr demo_model"
    by (simp add: load_model_def demo_env_def request_model_name_def request_config_def
        demo_request_def)
  have p: "precompute_text_features demo_model (request_categories ?r) =
       Inr ([[Num 1, Num 0], [Num 0, Num 1], [Num 0, Num 1]], [''cat'', ''cat'', ''dog''],
            [(''cat'', [0, 1]), (''dog'', [2])])"
    by (simp add: demo_eval)
  have i: "request_images ?r = [''cat.jpg'', ''nope.jpg'']"
    by (simp add: request_images_def demo_request_def)
  have c: "fst (flatten_prompts (request_categories ?r)) =
             [''a photo of a cat'', ''a kitten'', ''a photo of a dog'']"
    by (simp add: demo_eval)
  have d: "get_device (demo_env ?r) = ''cpu''"
    by (simp add: get_device_def demo_env_def)
  have m: "request_model_name ?r = ''openai/clip-vit-large-patch14''"
    by (simp add: demo_eval)
  have u: "[0..<2] = [0, 1]"
    by (simp add: upt_rec)
  from progress_before_each_image [OF l p] l p show ?thesis
    by (simp add: i c d m u numeral_2_eq_2)
qed

subsection \<open>C8: malformed input and unknown commands\<close>

text \<open>
  C8. Malformed JSON is to be answered with one error response. Line 205 catches
  \<open>json.JSONDecodeError\<close> only. In the run below stdin holds 5000 opening brackets, a
  malformed document on which \<open>json.loads\<close> raises RecursionError: the exception leaves
  \<open>main\<close> uncaught and nothing is printed to stdout.
\<close>

theorem deeply_nested_input_is_uncaught:
  "json_loads (demo_env (demo_request [''cat.jpg''])) (replicate 5000 (CHR ''['')) =
     Inl (RecursionError ''maximum recursion depth exceeded'')
   \<and> main (demo_env (demo_request [''cat.jpg''])) (replicate 5000 (CHR ''['')) =
       ([], Uncaught ''maximum recursion depth exceeded'')"
proof -
  have n: "(1000 :: nat) \<le> 5000"
    by simp
  from demo_json_loads_nested [OF n]
  have l: "json_loads (demo_env (demo_request [''cat.jpg''])) (replicate 5000 (CHR ''['')) =
     Inl (RecursionError ''maximum recursion depth exceeded'')" .
  then have "json_loads (demo_env (demo_request [''cat.jpg''])) (replicate 5000 (CHR ''['')) =
               Inl (UnicodeDecodeError ''maximum recursion depth exceeded'')
             \<or> json_loads (demo_env (demo_request [''cat.jpg''])) (replicate 5000 (CHR ''['')) =
               Inl (RecursionError ''maximum recursion depth exceeded'')
             \<or> json_loads (demo_env (demo_request [''cat.jpg''])) (replicate 5000 (CHR ''['')) =
               Inl (OtherException ''maximum recursion depth exceeded'')"
    by blast
  then have "main (demo_env (demo_request [''cat.jpg''])) (replicate 5000 (CHR ''['')) =
       ([], Uncaught ''maximum recursion depth exceeded'')"
    by (rule main_other_read_error)
  with l show ?thesis
    by (rule conjI)
qed

subsection \<open>C9: a category without prompts\<close>

text \<open>
  C9, as stated: a request with a category whose prompt list is empty is to be rejected.
  The worker validates nothing. In the run below the category \<open>dog\<close> has no prompt:
  the image is classified, and \<open>dog\<close> has no score.
\<close>

theorem empty_prompt_category_counterexample:
  "main (demo_env (demo_request [''cat.jpg''] \<lparr>req_config := Some \<lparr>cfg_model = None,
       cfg_categories = Some [(''cat'', [''a photo of a cat'']), (''dog'', [])],
       cfg_topK = Some 1\<rparr>\<rparr>)) ''{...}'' =
     ([Stdout (Status ''Loading model on cpu...''),
       Load_model ''openai/clip-vit-large-patch14'' ''cpu'',
       Stdout (Status ''Precomputing text features...''),
       Embed_text [''a photo of a cat''],
       Stdout (Progress 1 1), Classify ''cat.jpg'',
       Stdout (Success ''cpu''
         [\<lparr>res_path = ''cat.jpg'', res_category = Some ''cat'',
           res_confidence = Some (Num 1), res_scores = Some [(''cat'', Num 1)]\<rparr>] [])],
      Exit 0)"
  by (simp add: demo_eval)

text \<open>
  C9, amended. A category with an empty prompt list is ignored: the run of the request is
  the run of the same request without its empty categories. Such a category has no row
  in the index and no entry in \<open>category_indices\<close>; it gets no score and is never the
  predicted category.
\<close>

theorem empty_prompt_category_is_dropped:
  assumes "distinct (map fst (request_categories request))"
    and "(category, []) \<in> set (request_categories request)"
  shows "handle_classify e request =
           handle_classify e
             (request\<lparr>req_config := Some ((request_config request)\<lparr>cfg_categories :=
                Some (filter (\<lambda>(c, prompts). prompts \<noteq> []) (request_categories request))\<rparr>)\<rparr>)
         \<and> (precompute_text_features model (request_categories request) = Inr (tf, p2c, ci) \<longrightarrow>
              category \<notin> set p2c \<and> category \<notin> fst ` set ci
              \<and> (classify_image e image_path model tf ci top_k =
                    (Some best, Some confidence, Some scores, err) \<longrightarrow>
                  best \<noteq> category \<and> category \<notin> fst ` set scores))"
proof -
  have a: "handle_classify e request =
           handle_classify e
             (request\<lparr>req_config := Some ((request_config request)\<lparr>cfg_categories :=
                Some (filter (\<lambda>(c, prompts). prompts \<noteq> []) (request_categories request))\<rparr>)\<rparr>)"
    by (simp add: handle_classify_def request_without_empty flatten_prompts_filter
        precompute_text_features_filter Let_def cong: sum.case_cong)
  have b: "category \<notin> set p2c \<and> category \<notin> fst ` set ci
              \<and> (classify_image e image_path model tf ci top_k =
                    (Some best, Some confidence, Some scores, err) \<longrightarrow>
                  best \<noteq> category \<and> category \<notin> fst ` set scores)"
    if pre: "precompute_text_features model (request_categories request) = Inr (tf, p2c, ci)"
  proof -
    from pre have p2c: "p2c = snd (flatten_prompts (request_categories request))"
      and ci: "ci = group_indices [] 0 p2c"
      by (auto simp: precompute_text_features_Inr)
    have "ps = []" if "(category, ps) \<in> set (request_categories request)" for ps
      using assms that by (meson eq_key_imp_eq_value)
    then have no_row: "category \<notin> set p2c"
      unfolding p2c set_snd_flatten_prompts by auto
    then have no_key: "category \<notin> fst ` set ci"
      unfolding ci by (simp add: keys_group_indices)
    have "best \<noteq> category \<and> category \<notin> fst ` set scores"
      if cl: "classify_image e image_path model tf ci top_k =
                (Some best, Some confidence, Some scores, err)"
    proof -
      from cl obtain sims where sc: "score_categories model sims ci top_k = Inr scores"
        and mx: "max_score scores = Inr (best, confidence)"
        by (auto simp: classify_image_Some score_image_Inr)
      from sc have keys: "map fst scores = map fst ci"
        by (rule score_categories_keys)
      then have "fst ` set scores = fst ` set ci"
        by (metis list.set_map)
      moreover from mx have "best \<in> fst ` set scores"
        using max_score_mem by force
      ultimately show ?thesis using no_key by auto
    qed
    with no_row no_key show ?thesis by blast
  qed
  from a b show ?thesis by blast
qed

theorem empty_prompt_category_is_dropped_witness:
  "distinct (map fst (request_categories
       (demo_request [''cat.jpg''] \<lparr>req_config := Some \<lparr>cfg_model = None,
          cfg_categories = Some [(''cat'', [''a photo of a cat'']), (''dog'', [])],
          cfg_topK = Some 1\<rparr>\<rparr>)))
   \<and> (''dog'', []) \<in> set (request_categories
       (demo_request [''cat.jpg''] \<lparr>req_config := Some \<lparr>cfg_model = None,
          cfg_categories = Some [(''cat'', [''a photo of a cat'']), (''dog'', [])],
          cfg_topK = Some 1\<rparr>\<rparr>))
   \<and> handle_classify (demo_env (demo_request [''cat.jpg'']))
         (demo_request [''cat.jpg''] \<lparr>req_config := Some \<lparr>cfg_model = None,
            cfg_categories = Some [(''cat'', [''a photo of a cat'']), (''dog'', [])],
            cfg_topK = Some 1\<rparr>\<rparr>) =
       handle_classify (demo_env (demo_request [''cat.jpg'']))
         (demo_request [''cat.jpg''] \<lparr>req_config := Some \<lparr>cfg_model = None,
            cfg_categories = Some [(''cat'', [''a photo of a cat''])],
            cfg_topK = Some 1\<rparr>\<rparr>)
   \<and> precompute_text_features demo_model [(''cat'', [''a photo of a cat'']), (''dog'', [])] =
       Inr ([[Num 1, Num 0]], [''cat''], [(''cat'', [0])])
   \<and> classify_image (demo_env (demo_request [''cat.jpg''])) ''cat.jpg'' demo_model
         [[Num 1, Num 0]] [(''cat'', [0])] 1 =
       (Some ''cat'', Some (Num 1), Some [(''cat'', Num 1)], None)
   \<and> ''dog'' \<notin> set [''cat''] \<and> ''dog'' \<notin> fst ` set [(''cat'', [0 :: nat])]
   \<and> ''cat'' \<noteq> ''dog'' \<and> ''dog'' \<notin> fst ` set [(''cat'', Num 1)]"
proof -
  let ?e = "demo_env (demo_request [''cat.jpg''])"
  let ?r = "demo_request [''cat.jpg''] \<lparr>req_config := Some \<lparr>cfg_model = None,
          cfg_categories = Some [(''cat'', [''a photo of a cat'']), (''dog'', [])],
          cfg_topK = Some 1\<rparr>\<rparr>"
  have cats: "request_categories ?r = [(''cat'', [''a photo of a cat'']), (''dog'', [])]"
    by (simp add: request_categories_def request_config_def demo_request_def)
  have cfg: "request_config ?r = \<lparr>cfg_model = None,
          cfg_categories = Some [(''cat'', [''a photo of a cat'']), (''dog'', [])],
          cfg_topK = Some 1\<rparr>"
    by (simp add: request_config_def demo_request_def)
  have d: "distinct (map fst (request_categories ?r))"
    by (simp add: cats)
  have m: "(''dog'', []) \<in> set (request_categories ?r)"
    by (simp add: cats)
  have p: "precompute_text_features demo_model (request_categories ?r) =
             Inr ([[Num 1, Num 0]], [''cat''], [(''cat'', [0])])"
    by (simp add: cats demo_eval)
  have c: "classify_image ?e ''cat.jpg'' demo_model [[Num 1, Num 0]] [(''cat'', [0])] 1 =
             (Some ''cat'', Some (Num 1), Some [(''cat'', Num 1)], None)"
    by (simp add: demo_eval)
  have r': "?r\<lparr>req_config := Some ((request_config ?r)\<lparr>cfg_categories :=
                Some (filter (\<lambda>(c, prompts). prompts \<noteq> []) (request_categories ?r))\<rparr>)\<rparr> =
            demo_request [''cat.jpg''] \<lparr>req_config := Some \<lparr>cfg_model = None,
              cfg_categories = Some [(''cat'', [''a photo of a cat''])], cfg_topK = Some 1\<rparr>\<rparr>"
    unfolding cats cfg by simp
  note inst = empty_prompt_category_is_dropped [OF d m, of ?e demo_model "[[Num 1, Num 0]]"
         "[''cat'']" "[(''cat'', [0])]" "''cat.jpg''" 1 "''cat''" "Num 1" "[(''cat'', Num 1)]" None]
  from inst have same: "handle_classify ?e ?r =
       handle_classify ?e (demo_request [''cat.jpg''] \<lparr>req_config := Some \<lparr>cfg_model = None,
              cfg_categories = Some [(''cat'', [''a photo of a cat''])], cfg_topK = Some 1\<rparr>\<rparr>)"
    unfolding r' by (rule conjunct1)
  from inst p c have rest: "''dog'' \<notin> set [''cat''] \<and> ''dog'' \<notin> fst ` set [(''cat'', [0 :: nat])]
     \<and> ''cat'' \<noteq> ''dog'' \<and> ''dog'' \<notin> fst ` set [(''cat'', Num 1)]"
    by blast
  from p have p': "precompute_text_features demo_model
       [(''cat'', [''a photo of a cat'']), (''dog'', [])] =
       Inr ([[Num 1, Num 0]], [''cat''], [(''cat'', [0])])"
    unfolding cats .
  from d m same p' c rest show ?thesis
    by blast
qed

subsection \<open>C10: a request without a command\<close>

text \<open>
  C10. A request object without a \<open>command\<close> field is handled by \<open>handle_classify\<close>:
  the run is that of the same request with \<open>command\<close> set to \<open>classify\<close>, it starts with
  the status message of the model load, and it is never the unknown-command error.
\<close>

theorem missing_command_is_classify:
  assumes "json_loads e input_data = Inr request" and "req_command request = None"
  shows "main e input_data =
           (case handle_classify e request of
              (trace, None) \<Rightarrow> (trace, Exit 0)
            | (trace, Some msg) \<Rightarrow> (trace, Uncaught msg))
         \<and> main e input_data =
             main (e\<lparr>json_loads := \<lambda>s. Inr (request\<lparr>req_command := Some ''classify''\<rparr>)\<rparr>)
               input_data
         \<and> (\<exists>rest. fst (main e input_data) =
               Stdout (Status (''Loading model on '' @ get_device e @ ''...'')) # rest)"
proof -
  have a: "main e input_data =
           (case handle_classify e request of
              (trace, None) \<Rightarrow> (trace, Exit 0)
            | (trace, Some msg) \<Rightarrow> (trace, Uncaught msg))"
    using assms by (simp add: main_def)
  have b: "main (e\<lparr>json_loads := \<lambda>s. Inr (request\<lparr>req_command := Some ''classify''\<rparr>)\<rparr>)
               input_data = main e input_data"
    unfolding a by (simp add: main_def handle_classify_json_loads handle_classify_command)
  obtain rest where "fst (handle_classify e request) =
               Stdout (Status (''Loading model on '' @ get_device e @ ''...'')) # rest"
    using handle_classify_first by blast
  then have "fst (main e input_data) =
               Stdout (Status (''Loading model on '' @ get_device e @ ''...'')) # rest"
    unfolding a by (auto split: prod.splits option.splits)
  with a b show ?thesis by simp
qed

theorem missing_command_is_classify_witness:
  "json_loads (demo_env (demo_request [''cat.jpg''])) ''{...}'' = Inr (demo_request [''cat.jpg''])
   \<and> req_command (demo_request [''cat.jpg'']) = None
   \<and> main (demo_env (demo_request [''cat.jpg''])) ''{...}'' =
       ([Stdout (Status ''Loading model on cpu...''),
         Load_model ''openai/clip-vit-large-patch14'' ''cpu'',
         Stdout (Status ''Precomputing text features...''),
         Embed_text [''a photo of a cat'', ''a kitten'', ''a photo of a dog''],
         Stdout (Progress 1 1),
         Classify ''cat.jpg'',
         Stdout (Success ''cpu''
           [\<lparr>res_path = ''cat.jpg'', res_category = Some ''cat'',
             res_confidence = Some (Num (1 / 2)),
             res_scores = Some [(''cat'', Num (1 / 2)), (''dog'', Num 0)]\<rparr>] [])],
        Exit 0)"
proof -
  have l: "json_loads (demo_env (demo_request [''cat.jpg''])) ''{...}'' =
             Inr (demo_request [''cat.jpg''])"
    by (simp add: demo_env_def)
  have c: "req_command (demo_request [''cat.jpg'']) = None"
    by (simp add: demo_request_def)
  have h: "handle_classify (demo_env (demo_request [''cat.jpg''])) (demo_request [''cat.jpg'']) =
       ([Stdout (Status ''Loading model on cpu...''),
         Load_model ''openai/clip-vit-large-patch14'' ''cpu'',
         Stdout (Status ''Precomputing text features...''),
         Embed_text [''a photo of a cat'', ''a kitten'', ''a photo of a dog''],
         Stdout (Progress 1 1),
         Classify ''cat.jpg'',
         Stdout (Success ''cpu''
           [\<lparr>res_path = ''cat.jpg'', res_category = Some ''cat'',
             res_confidence = Some (Num (1 / 2)),
             res_scores = Some [(''cat'', Num (1 / 2)), (''dog'', Num 0)]\<rparr>] [])],
        None)"
    by (simp add: demo_eval)
  from missing_command_is_classify [OF l c] l c h show ?thesis by simp
qed

end
